theory Spec2Isabelle
  imports Main "HOL-Library.AList" "HOL-Library.Sublist"
begin

section \<open>Python values, errors and the two effect layers\<close>

text \<open>
  The program is \<^verbatim>\<open>restore_credentials.py\<close>. Its exceptions are values of
  \<open>error\<close>; a computation that can raise returns \<open>error + 'a\<close> with \<open>Inl\<close> the
  exception. The exceptions listed are the ones the modelled statements can raise:
  the two \<^verbatim>\<open>raise ValueError(...)\<close> of the reader, \<^verbatim>\<open>KeyError\<close> of a
  dictionary subscript, \<^verbatim>\<open>TypeError\<close> of \<^verbatim>\<open>len(None)\<close>, of a subscript or
  membership test on a value that does not support it and of an unhashable
  dictionary key, \<^verbatim>\<open>IndexError\<close> of a string index, the decoding error of
  \<^verbatim>\<open>r.json()\<close>, the transport error of \<^verbatim>\<open>requests\<close>, and the error of
  \<^verbatim>\<open>open\<close>.
\<close>

datatype error =
    ValueError string
  | KeyError string
  | TypeError
  | IndexError
  | JSONDecodeError
  | ConnectionError
  | FileNotFoundError

fun bindE :: "error + 'a \<Rightarrow> ('a \<Rightarrow> error + 'b) \<Rightarrow> error + 'b" where
  "bindE (Inl e) f = Inl e"
| "bindE (Inr x) f = f x"

text \<open>
  A value that is a \<^verbatim>\<open>str\<close> or \<^verbatim>\<open>None\<close>: the values of a
  \<^verbatim>\<open>csv.DictReader\<close> row and of \<^verbatim>\<open>os.environ.get\<close>.
  \<open>fmt\<close> is \<^verbatim>\<open>'{}'.format(v)\<close> on such a value.
\<close>

type_synonym cell = "string option"

definition fmt :: "cell \<Rightarrow> string" where
  "fmt c = (case c of None \<Rightarrow> ''None'' | Some s \<Rightarrow> s)"

text \<open>\<^verbatim>\<open>len(v)\<close>: \<^verbatim>\<open>len(None)\<close> raises \<^verbatim>\<open>TypeError\<close>.\<close>

definition py_len :: "cell \<Rightarrow> error + nat" where
  "py_len c = (case c of None \<Rightarrow> Inl TypeError | Some s \<Rightarrow> Inr (length s))"

text \<open>
  \<^verbatim>\<open>s[i]\<close> on a string, with Python's negative indices; on \<^verbatim>\<open>None\<close> it
  raises \<^verbatim>\<open>TypeError\<close>, out of range \<^verbatim>\<open>IndexError\<close>.
\<close>

definition str_index :: "cell \<Rightarrow> int \<Rightarrow> error + string" where
  "str_index c i =
     (case c of
        None \<Rightarrow> Inl TypeError
      | Some s \<Rightarrow>
          (if 0 \<le> i \<and> i < int (length s) then Inr [s ! nat i]
           else if i < 0 \<and> - i \<le> int (length s) then Inr [s ! nat (int (length s) + i)]
           else Inl IndexError))"

text \<open>
  \<^verbatim>\<open>s + '...' + t\<close> where \<^verbatim>\<open>s\<close> and \<^verbatim>\<open>t\<close> are the first and the last
  character of the password (line 276).
\<close>

definition redact :: "cell \<Rightarrow> error + string" where
  "redact pw =
     bindE (str_index pw 0) (\<lambda>a.
     bindE (str_index pw (- 1)) (\<lambda>b.
     Inr (a @ ''...'' @ b)))"

section \<open>The CSV file, as the \<^verbatim>\<open>csv\<close> module presents it\<close>

text \<open>
  A CSV file is the list of its records, each the list of its fields; the first one
  is the header. The quoting of the text is the \<^verbatim>\<open>csv\<close> module's and is not
  modelled. A row of \<^verbatim>\<open>csv.DictReader\<close> is a dictionary from the header's names
  to the fields: a record shorter than the header has \<^verbatim>\<open>None\<close> for the names it
  does not reach, fields beyond the header go under the key \<^verbatim>\<open>None\<close> (never
  read by the program), a later duplicate of a header name wins, and empty records
  are skipped. A name that the header lacks is not a key of the row.
\<close>

type_synonym csv_file = "string list list"

type_synonym row = "string \<rightharpoonup> cell"

definition dict_row :: "string list \<Rightarrow> string list \<Rightarrow> row" where
  "dict_row fieldnames fields =
     map_of (rev (zip fieldnames
       (map Some fields @ replicate (length fieldnames - length fields) None)))"

definition DictReader :: "csv_file \<Rightarrow> row list" where
  "DictReader f =
     (case f of
        [] \<Rightarrow> []
      | fieldnames # records \<Rightarrow> map (dict_row fieldnames) (filter (\<lambda>r. r \<noteq> []) records))"

text \<open>\<^verbatim>\<open>row[k]\<close>: a missing key raises \<^verbatim>\<open>KeyError\<close>.\<close>

definition getitem :: "row \<Rightarrow> string \<Rightarrow> error + cell" where
  "getitem r k = (case r k of None \<Rightarrow> Inl (KeyError k) | Some v \<Rightarrow> Inr v)"

section \<open>The import reader (lines 231 to 255)\<close>

text \<open>
  \<^verbatim>\<open>len(row[k]) == 0 or row[k] is None\<close>, with the short circuit of
  \<^verbatim>\<open>or\<close>: the right operand is evaluated only when the left one is false.
\<close>

definition is_none :: "cell \<Rightarrow> bool" where
  "is_none c = (c = None)"

definition field_missing :: "row \<Rightarrow> string \<Rightarrow> error + bool" where
  "field_missing r k =
     bindE (getitem r k) (\<lambda>v.
     bindE (py_len v) (\<lambda>n.
     if n = 0 then Inr True
     else bindE (getitem r k) (\<lambda>v'. Inr (is_none v'))))"

definition msg_username :: string where
  "msg_username = ''Updated username must be provided, even if you are not changing the value.''"

definition msg_password :: string where
  "msg_password = ''Updated password must be provided, even if you are not changing the value.''"

text \<open>
  The \<^verbatim>\<open>updates\<close> dictionary. Python dictionaries keep insertion order, which is
  the order the dispatcher iterates in, so a dictionary is an association list;
  \<open>AList.update\<close> replaces the value of a key in place and appends a new key at
  the end, as a dictionary assignment does.
\<close>

record conn_update =
  connection_id :: cell
  username :: cell
  password :: cell

record ds_entry =
  datasource_name :: cell
  connections :: "conn_update list"

record site_entry =
  site_id :: cell
  site_name :: cell
  datasources :: "(cell \<times> ds_entry) list"

type_synonym update_plan = "(cell \<times> site_entry) list"

text \<open>
  Lines 240 to 245: the site entry is created when the key is new. The right-hand side
  of the assignment is evaluated first, so \<^verbatim>\<open>row['site_id']\<close> and
  \<^verbatim>\<open>row['site_name']\<close> are read only then.
\<close>

definition ensure_site :: "update_plan \<Rightarrow> row \<Rightarrow> cell \<Rightarrow> error + update_plan" where
  "ensure_site updates r scu =
     (case map_of updates scu of
        Some _ \<Rightarrow> Inr updates
      | None \<Rightarrow>
          bindE (getitem r ''site_id'') (\<lambda>sid.
          bindE (getitem r ''site_name'') (\<lambda>sn.
          Inr (AList.update scu
                 \<lparr>site_id = sid, site_name = sn, datasources = []\<rparr> updates))))"

text \<open>Lines 246 to 250, on the \<^verbatim>\<open>datasources\<close> dictionary of the site.\<close>

definition ensure_datasource ::
  "(cell \<times> ds_entry) list \<Rightarrow> row \<Rightarrow> cell \<Rightarrow> error + (cell \<times> ds_entry) list" where
  "ensure_datasource dss r dsid =
     (case map_of dss dsid of
        Some _ \<Rightarrow> Inr dss
      | None \<Rightarrow>
          bindE (getitem r ''datasource_name'') (\<lambda>dn.
          Inr (AList.update dsid \<lparr>datasource_name = dn, connections = []\<rparr> dss)))"

text \<open>Lines 251 to 255: \<^verbatim>\<open>connections.append({...})\<close>.\<close>

definition append_connection ::
  "(cell \<times> ds_entry) list \<Rightarrow> cell \<Rightarrow> conn_update \<Rightarrow> (cell \<times> ds_entry) list" where
  "append_connection dss dsid c =
     (case map_of dss dsid of
        None \<Rightarrow> dss
      | Some de \<Rightarrow> AList.update dsid (de\<lparr>connections := connections de @ [c]\<rparr>) dss)"

definition set_datasources :: "update_plan \<Rightarrow> cell \<Rightarrow> (cell \<times> ds_entry) list \<Rightarrow> update_plan" where
  "set_datasources updates scu dss =
     (case map_of updates scu of
        None \<Rightarrow> updates
      | Some e \<Rightarrow> AList.update scu (e\<lparr>datasources := dss\<rparr>) updates)"

definition site_datasources :: "update_plan \<Rightarrow> cell \<Rightarrow> (cell \<times> ds_entry) list" where
  "site_datasources updates scu =
     (case map_of updates scu of None \<Rightarrow> [] | Some e \<Rightarrow> datasources e)"

text \<open>
  The body of the loop over the rows (lines 236 to 255). Each key of the row is read
  where the source reads it first; a later read of the same key returns the same
  value and cannot raise. The nested dictionaries are mutable objects in the source:
  here the data sources of the site are taken out, changed and stored back.
\<close>

definition import_row :: "update_plan \<Rightarrow> row \<Rightarrow> error + update_plan" where
  "import_row updates r =
     bindE (field_missing r ''updated_username'') (\<lambda>m1.
     if m1 then Inl (ValueError msg_username) else
     bindE (field_missing r ''updated_password'') (\<lambda>m2.
     if m2 then Inl (ValueError msg_password) else
     bindE (getitem r ''site_content_url'') (\<lambda>scu.
     bindE (ensure_site updates r scu) (\<lambda>updates1.
     bindE (getitem r ''datasource_id'') (\<lambda>dsid.
     bindE (ensure_datasource (site_datasources updates1 scu) r dsid) (\<lambda>dss1.
     bindE (getitem r ''connection_id'') (\<lambda>cid.
     bindE (getitem r ''updated_username'') (\<lambda>u.
     bindE (getitem r ''updated_password'') (\<lambda>p.
     Inr (set_datasources updates1 scu
            (append_connection dss1 dsid
               \<lparr>connection_id = cid, username = u, password = p\<rparr>)))))))))))"

fun import_rows :: "update_plan \<Rightarrow> row list \<Rightarrow> error + update_plan" where
  "import_rows updates [] = Inr updates"
| "import_rows updates (r # rs) = bindE (import_row updates r) (\<lambda>u. import_rows u rs)"

text \<open>The import phase on a file: \<^verbatim>\<open>updates = {}\<close>, then the loop.\<close>

definition import_csv :: "csv_file \<Rightarrow> error + update_plan" where
  "import_csv f = import_rows [] (DictReader f)"



text \<open>
  Views of a plan and of a row, used to state what the reader builds:
  \<open>row_get\<close> is \<^verbatim>\<open>row.get(k)\<close>; \<open>row_update\<close> is the dictionary appended at
  lines 251 to 255; \<open>row_of r s d\<close> says that the row belongs to site \<open>s\<close> and data
  source \<open>d\<close>; \<open>plan_ds\<close> is \<^verbatim>\<open>updates[s]['datasources'][d]\<close> when both keys
  exist; \<open>site_meta\<close> is the pair \<^verbatim>\<open>(site_id, site_name)\<close> stored for a site.
\<close>

definition row_get :: "row \<Rightarrow> string \<Rightarrow> cell" where
  "row_get r k = (case r k of None \<Rightarrow> None | Some v \<Rightarrow> v)"

definition row_update :: "row \<Rightarrow> conn_update" where
  "row_update r =
     \<lparr>connection_id = row_get r ''connection_id'',
      username = row_get r ''updated_username'',
      password = row_get r ''updated_password''\<rparr>"

definition row_of :: "row \<Rightarrow> cell \<Rightarrow> cell \<Rightarrow> bool" where
  "row_of r s d \<longleftrightarrow> r ''site_content_url'' = Some s \<and> r ''datasource_id'' = Some d"

definition plan_ds :: "update_plan \<Rightarrow> cell \<Rightarrow> cell \<Rightarrow> ds_entry option" where
  "plan_ds u s d = map_of (site_datasources u s) d"

definition site_meta :: "update_plan \<Rightarrow> cell \<Rightarrow> (cell \<times> cell) option" where
  "site_meta u s = map_option (\<lambda>e. (site_id e, site_name e)) (map_of u s)"

text \<open>
  The entry that lines 240 to 250 leave under a key: the one already there, or a fresh
  one carrying the row's metadata and nothing else.
\<close>

definition new_site :: "update_plan \<Rightarrow> row \<Rightarrow> cell \<Rightarrow> site_entry \<Rightarrow> bool" where
  "new_site u r s e \<longleftrightarrow>
     map_of u s = Some e \<or>
     (map_of u s = None \<and> r ''site_id'' = Some (site_id e) \<and>
      r ''site_name'' = Some (site_name e) \<and> datasources e = [])"

definition new_ds :: "(cell \<times> ds_entry) list \<Rightarrow> row \<Rightarrow> cell \<Rightarrow> ds_entry \<Rightarrow> bool" where
  "new_ds dss r d de \<longleftrightarrow>
     map_of dss d = Some de \<or>
     (map_of dss d = None \<and> r ''datasource_name'' = Some (datasource_name de) \<and>
      connections de = [])"

section \<open>JSON values and the operations the program applies to them\<close>

text \<open>
  The value of \<^verbatim>\<open>r.json()\<close>. An object is the parsed dictionary, one pair per
  key. Numbers are left out: the identifiers, names, addresses and ports of the
  server's answers are strings.
\<close>

datatype json =
    JNull
  | JBool bool
  | JStr string
  | JArr "json list"
  | JObj "(string \<times> json) list"

definition json_of_cell :: "cell \<Rightarrow> json" where
  "json_of_cell c = (case c of None \<Rightarrow> JNull | Some s \<Rightarrow> JStr s)"

text \<open>
  \<^verbatim>\<open>v[k]\<close> with a string \<^verbatim>\<open>k\<close>: a dictionary looks the key up; a list, a
  string, a boolean and \<^verbatim>\<open>None\<close> raise \<^verbatim>\<open>TypeError\<close>.
\<close>

fun subscript :: "json \<Rightarrow> string \<Rightarrow> error + json" where
  "subscript (JObj kvs) k = (case map_of kvs k of None \<Rightarrow> Inl (KeyError k) | Some v \<Rightarrow> Inr v)"
| "subscript _ k = Inl TypeError"

fun is_substring :: "string \<Rightarrow> string \<Rightarrow> bool" where
  "is_substring k [] = (k = [])"
| "is_substring k (c # cs) = (prefix k (c # cs) \<or> is_substring k cs)"

text \<open>
  \<^verbatim>\<open>k in v\<close> with a string \<^verbatim>\<open>k\<close>: key membership for a dictionary, element
  membership for a list, substring test for a string; \<^verbatim>\<open>TypeError\<close> otherwise.
\<close>

fun py_in :: "string \<Rightarrow> json \<Rightarrow> error + bool" where
  "py_in k (JObj kvs) = Inr (k \<in> set (map fst kvs))"
| "py_in k (JArr xs) = Inr (JStr k \<in> set xs)"
| "py_in k (JStr s) = Inr (is_substring k s)"
| "py_in k _ = Inl TypeError"

text \<open>
  The elements a \<^verbatim>\<open>for\<close> loop over the value visits: the items of a list, the
  keys of a dictionary, the characters of a string; \<^verbatim>\<open>TypeError\<close> otherwise.
\<close>

fun py_iter :: "json \<Rightarrow> error + json list" where
  "py_iter (JArr xs) = Inr xs"
| "py_iter (JObj kvs) = Inr (map (\<lambda>kv. JStr (fst kv)) kvs)"
| "py_iter (JStr s) = Inr (map (\<lambda>c. JStr [c]) s)"
| "py_iter _ = Inl TypeError"

text \<open>
  \<^verbatim>\<open>'{}'.format(v)\<close>. The text of a list or a dictionary is Python's
  \<^verbatim>\<open>repr\<close>, a parameter \<open>render\<close> of the model.
\<close>

definition fmt_json :: "(json \<Rightarrow> string) \<Rightarrow> json \<Rightarrow> string" where
  "fmt_json render v =
     (case v of
        JStr s \<Rightarrow> s
      | JNull \<Rightarrow> ''None''
      | JBool b \<Rightarrow> (if b then ''True'' else ''False'')
      | _ \<Rightarrow> render v)"

text \<open>A dictionary key must be hashable: a list or a dictionary raises \<^verbatim>\<open>TypeError\<close>.\<close>

definition hashable :: "json \<Rightarrow> bool" where
  "hashable v = (case v of JArr _ \<Rightarrow> False | JObj _ \<Rightarrow> False | _ \<Rightarrow> True)"

section \<open>The network and the console\<close>

text \<open>
  A request is what \<^verbatim>\<open>requests.get/post/put\<close> is called with. The server is any
  function from the requests issued so far and the current request to its answer:
  a status code and a body that is JSON or not, or no answer at all (the transport
  raises). The program's observable effects are the requests it issues, in order,
  and the lines it prints; both are kept when an exception ends the run. A header
  holds whatever value the program puts there: what \<^verbatim>\<open>requests\<close> does with a
  token that is not a string is not modelled.
\<close>

datatype http_method = GET | POST | PUT

record request =
  req_method :: http_method
  req_url :: string
  req_headers :: "(string \<times> json) list"
  req_json :: "json option"

datatype reply = NoReply | Reply nat "json option"

type_synonym server = "request list \<Rightarrow> request \<Rightarrow> reply"

record io =
  trace :: "request list"
  out :: "string list"

type_synonym 'a prog = "io \<Rightarrow> (error + 'a) \<times> io"

definition returnP :: "'a \<Rightarrow> 'a prog" where
  "returnP x = (\<lambda>st. (Inr x, st))"

definition liftE :: "error + 'a \<Rightarrow> 'a prog" where
  "liftE m = (\<lambda>st. (m, st))"

definition bindP :: "'a prog \<Rightarrow> ('a \<Rightarrow> 'b prog) \<Rightarrow> 'b prog" where
  "bindP m f = (\<lambda>st. case m st of (Inl e, st') \<Rightarrow> (Inl e, st') | (Inr x, st') \<Rightarrow> f x st')"

definition print :: "string \<Rightarrow> unit prog" where
  "print line = (\<lambda>st. (Inr (), st\<lparr>out := out st @ [line]\<rparr>))"

definition send :: "server \<Rightarrow> request \<Rightarrow> (nat \<times> json option) prog" where
  "send srv req =
     (\<lambda>st. case srv (trace st) req of
              NoReply \<Rightarrow> (Inl ConnectionError, st\<lparr>trace := trace st @ [req]\<rparr>)
            | Reply code body \<Rightarrow> (Inr (code, body), st\<lparr>trace := trace st @ [req]\<rparr>))"

text \<open>\<^verbatim>\<open>r.json()\<close>: a body that is not JSON raises.\<close>

definition resp_json :: "nat \<times> json option \<Rightarrow> error + json" where
  "resp_json r = (case snd r of None \<Rightarrow> Inl JSONDecodeError | Some j \<Rightarrow> Inr j)"

section \<open>Configuration and the session client (lines 35 to 114)\<close>

record config =
  API_VERSION :: cell
  TABLEAU_SERVER_URL :: cell
  USERNAME :: cell
  PASSWORD :: cell

definition get_request_headers :: "json \<Rightarrow> (string \<times> json) list" where
  "get_request_headers token =
     [(''Content-Type'', JStr ''application/json''), (''Accept'', JStr ''application/json'')]
     @ (if token \<noteq> JNull then [(''X-Tableau-Auth'', token)] else [])"

definition api_url :: "config \<Rightarrow> string" where
  "api_url cfg = fmt (TABLEAU_SERVER_URL cfg) @ ''/api/'' @ fmt (API_VERSION cfg)"

definition signout_request :: "config \<Rightarrow> json \<Rightarrow> request" where
  "signout_request cfg token =
     \<lparr>req_method = POST, req_url = api_url cfg @ ''/auth/signout'',
      req_headers = get_request_headers token, req_json = None\<rparr>"

definition logout :: "config \<Rightarrow> server \<Rightarrow> json \<Rightarrow> unit prog" where
  "logout cfg srv token = bindP (send srv (signout_request cfg token)) (\<lambda>r. returnP ())"

definition signin_request :: "config \<Rightarrow> cell \<Rightarrow> cell \<Rightarrow> json \<Rightarrow> request" where
  "signin_request cfg user pass contentUrl =
     \<lparr>req_method = POST, req_url = api_url cfg @ ''/auth/signin'',
      req_headers = get_request_headers JNull,
      req_json = Some (JObj [(''credentials'', JObj
        [(''name'', json_of_cell user),
         (''password'', json_of_cell pass),
         (''site'', JObj [(''contentUrl'',
             if contentUrl \<noteq> JNull then contentUrl else JStr [])])])])\<rparr>"

text \<open>
  \<^verbatim>\<open>get_api_token\<close>: the status code of the answer is not read; the token is
  \<^verbatim>\<open>r.json()['credentials']['token']\<close>.
\<close>

definition token_of :: "nat \<times> json option \<Rightarrow> error + json" where
  "token_of r =
     bindE (resp_json r) (\<lambda>j.
     bindE (subscript j ''credentials'') (\<lambda>c.
     subscript c ''token''))"

definition get_api_token :: "config \<Rightarrow> server \<Rightarrow> cell \<Rightarrow> cell \<Rightarrow> json \<Rightarrow> json prog" where
  "get_api_token cfg srv user pass contentUrl =
     bindP (send srv (signin_request cfg user pass contentUrl)) (\<lambda>r. liftE (token_of r))"

section \<open>The directory walker (lines 116 to 188)\<close>

record site_data =
  name :: json
  contentUrl :: json

definition get_request :: "string \<Rightarrow> json \<Rightarrow> request" where
  "get_request u token =
     \<lparr>req_method = GET, req_url = u, req_headers = get_request_headers token, req_json = None\<rparr>"

text \<open>
  The dictionary comprehension of \<^verbatim>\<open>get_sites\<close>: for each site the key
  \<^verbatim>\<open>site['id']\<close>, then the value, then the insertion, which needs a hashable
  key. A repeated id keeps its first position and takes the later value.
\<close>

fun sites_dict :: "(json \<times> site_data) list \<Rightarrow> json list \<Rightarrow> error + (json \<times> site_data) list" where
  "sites_dict acc [] = Inr acc"
| "sites_dict acc (site # rest) =
     bindE (subscript site ''id'') (\<lambda>k.
     bindE (subscript site ''name'') (\<lambda>n.
     bindE (subscript site ''contentUrl'') (\<lambda>c.
     if hashable k
     then sites_dict (AList.update k \<lparr>name = n, contentUrl = c\<rparr> acc) rest
     else Inl TypeError)))"

definition get_sites :: "config \<Rightarrow> server \<Rightarrow> json \<Rightarrow> (json \<times> site_data) list prog" where
  "get_sites cfg srv token =
     bindP (send srv (get_request (api_url cfg @ ''/sites'') token)) (\<lambda>r.
     liftE (bindE (resp_json r) (\<lambda>j.
            bindE (subscript j ''sites'') (\<lambda>ss.
            bindE (subscript ss ''site'') (\<lambda>s.
            bindE (py_iter s) (sites_dict []))))))"

text \<open>
  A ConnectionRecord is the dictionary of lines 173 to 187, kept as the list of its
  thirteen items in the order written.
\<close>

type_synonym connection_record = "(string \<times> json) list"

definition connection_record ::
  "json \<Rightarrow> site_data \<Rightarrow> json \<Rightarrow> json \<Rightarrow> error + connection_record" where
  "connection_record site_id' site_data' source connection =
     bindE (subscript source ''id'') (\<lambda>ds_id.
     bindE (subscript source ''name'') (\<lambda>ds_name.
     bindE (subscript source ''contentUrl'') (\<lambda>ds_url.
     bindE (subscript connection ''id'') (\<lambda>c_id.
     bindE (subscript connection ''type'') (\<lambda>c_type.
     bindE (subscript connection ''serverAddress'') (\<lambda>c_addr.
     bindE (subscript connection ''serverPort'') (\<lambda>c_port.
     bindE (subscript connection ''userName'') (\<lambda>c_user.
     Inr [(''site_id'', site_id'),
          (''site_name'', name site_data'),
          (''site_content_url'', contentUrl site_data'),
          (''datasource_id'', ds_id),
          (''datasource_name'', ds_name),
          (''datasource_content_url'', ds_url),
          (''connection_id'', c_id),
          (''connection_type'', c_type),
          (''connection_server_address'', c_addr),
          (''connection_server_port'', c_port),
          (''connection_username'', c_user),
          (''updated_username'', JNull),
          (''updated_password'', JNull)]))))))))"

text \<open>The loop of line 172: one record appended per connection.\<close>

fun walk_connections ::
  "json \<Rightarrow> site_data \<Rightarrow> json \<Rightarrow> connection_record list \<Rightarrow> json list
   \<Rightarrow> error + connection_record list" where
  "walk_connections sid sd source acc [] = Inr acc"
| "walk_connections sid sd source acc (c # cs) =
     bindE (connection_record sid sd source c) (\<lambda>rec.
     walk_connections sid sd source (acc @ [rec]) cs)"

definition connections_url :: "config \<Rightarrow> (json \<Rightarrow> string) \<Rightarrow> json \<Rightarrow> json \<Rightarrow> string" where
  "connections_url cfg render sid ds_id =
     api_url cfg @ ''/sites/'' @ fmt_json render sid @ ''/datasources/''
       @ fmt_json render ds_id @ ''/connections''"

definition datasources_url :: "config \<Rightarrow> (json \<Rightarrow> string) \<Rightarrow> json \<Rightarrow> string" where
  "datasources_url cfg render sid = api_url cfg @ ''/sites/'' @ fmt_json render sid @ ''/datasources''"

text \<open>
  The body of the loop over the data sources (lines 168 to 187): the connections are
  read only when the answer has the key \<^verbatim>\<open>connection\<close>.
\<close>

definition walk_source ::
  "config \<Rightarrow> (json \<Rightarrow> string) \<Rightarrow> server \<Rightarrow> json \<Rightarrow> site_data \<Rightarrow> json
   \<Rightarrow> connection_record list \<Rightarrow> json \<Rightarrow> connection_record list prog" where
  "walk_source cfg render srv sid sd site_token acc source =
     bindP (liftE (subscript source ''id'')) (\<lambda>ds_id.
     bindP (send srv (get_request (connections_url cfg render sid ds_id) site_token)) (\<lambda>r.
     bindP (liftE (bindE (resp_json r) (\<lambda>j. subscript j ''connections''))) (\<lambda>conns.
     bindP (liftE (py_in ''connection'' conns)) (\<lambda>has.
     if has
     then liftE (bindE (subscript conns ''connection'') (\<lambda>cs.
                 bindE (py_iter cs) (walk_connections sid sd source acc)))
     else returnP acc))))"

fun walk_sources ::
  "config \<Rightarrow> (json \<Rightarrow> string) \<Rightarrow> server \<Rightarrow> json \<Rightarrow> site_data \<Rightarrow> json
   \<Rightarrow> connection_record list \<Rightarrow> json list \<Rightarrow> connection_record list prog" where
  "walk_sources cfg render srv sid sd site_token acc [] = returnP acc"
| "walk_sources cfg render srv sid sd site_token acc (source # rest) =
     bindP (walk_source cfg render srv sid sd site_token acc source) (\<lambda>acc'.
     walk_sources cfg render srv sid sd site_token acc' rest)"

text \<open>
  The body of the loop over the sites (lines 161 to 188): sign in to the site, list
  its data sources, walk them when the answer has the key \<^verbatim>\<open>datasource\<close>, sign
  out.
\<close>

definition walk_site ::
  "config \<Rightarrow> (json \<Rightarrow> string) \<Rightarrow> server \<Rightarrow> connection_record list \<Rightarrow> json \<times> site_data
   \<Rightarrow> connection_record list prog" where
  "walk_site cfg render srv acc site =
     bindP (print (''Getting datasources for '' @ fmt_json render (name (snd site)) @ '' site...'')) (\<lambda>_.
     bindP (get_api_token cfg srv (USERNAME cfg) (PASSWORD cfg) (contentUrl (snd site))) (\<lambda>site_token.
     bindP (send srv (get_request (datasources_url cfg render (fst site)) site_token)) (\<lambda>r.
     bindP (liftE (bindE (resp_json r) (\<lambda>j. subscript j ''datasources''))) (\<lambda>dss.
     bindP (liftE (py_in ''datasource'' dss)) (\<lambda>has.
     bindP (if has
            then bindP (liftE (bindE (subscript dss ''datasource'') py_iter)) (\<lambda>sources.
                 walk_sources cfg render srv (fst site) (snd site) site_token acc sources)
            else returnP acc) (\<lambda>acc'.
     bindP (logout cfg srv site_token) (\<lambda>_.
     returnP acc')))))))"

fun walk_sites ::
  "config \<Rightarrow> (json \<Rightarrow> string) \<Rightarrow> server \<Rightarrow> connection_record list \<Rightarrow> (json \<times> site_data) list
   \<Rightarrow> connection_record list prog" where
  "walk_sites cfg render srv acc [] = returnP acc"
| "walk_sites cfg render srv acc (site # rest) =
     bindP (walk_site cfg render srv acc site) (\<lambda>acc'. walk_sites cfg render srv acc' rest)"

section \<open>The export writer (lines 189 to 211)\<close>

definition fieldnames :: "string list" where
  "fieldnames =
     [''site_id'', ''site_name'', ''site_content_url'', ''datasource_id'', ''datasource_name'',
      ''datasource_content_url'', ''connection_id'', ''connection_type'',
      ''connection_server_address'', ''connection_server_port'', ''connection_username'',
      ''updated_username'', ''updated_password'']"

text \<open>
  \<^verbatim>\<open>csv.DictWriter\<close>: a dictionary with a key outside the field names raises
  \<^verbatim>\<open>ValueError\<close>; a missing key is written as the empty string; \<^verbatim>\<open>None\<close> is
  written as the empty string, a string as it is, any other value as its
  \<^verbatim>\<open>str\<close>.
\<close>

definition csv_cell :: "(json \<Rightarrow> string) \<Rightarrow> json option \<Rightarrow> string" where
  "csv_cell render v =
     (case v of
        None \<Rightarrow> []
      | Some JNull \<Rightarrow> []
      | Some j \<Rightarrow> fmt_json render j)"

definition dict_to_list :: "(json \<Rightarrow> string) \<Rightarrow> connection_record \<Rightarrow> error + string list" where
  "dict_to_list render d =
     (if set (map fst d) \<subseteq> set fieldnames
      then Inr (map (\<lambda>k. csv_cell render (map_of d k)) fieldnames)
      else Inl (ValueError ''dict contains fields not in fieldnames''))"

fun writerows :: "(json \<Rightarrow> string) \<Rightarrow> connection_record list \<Rightarrow> error + string list list" where
  "writerows render [] = Inr []"
| "writerows render (d # ds) =
     bindE (dict_to_list render d) (\<lambda>l.
     bindE (writerows render ds) (\<lambda>ls. Inr (l # ls)))"

definition write_csv :: "(json \<Rightarrow> string) \<Rightarrow> connection_record list \<Rightarrow> error + csv_file" where
  "write_csv render ds = bindE (writerows render ds) (\<lambda>ls. Inr (fieldnames # ls))"

text \<open>\<^verbatim>\<open>'{}'.format(n)\<close> for the row count: the decimal digits.\<close>

fun str_nat :: "nat \<Rightarrow> string" where
  "str_nat n =
     (if n < 10 then [char_of (48 + n)]
      else str_nat (n div 10) @ [char_of (48 + n mod 10)])"

text \<open>
  \<^verbatim>\<open>build_datasources_csv\<close>: the result is the file written at \<^verbatim>\<open>save_as\<close>.
\<close>

definition build_datasources_csv ::
  "config \<Rightarrow> (json \<Rightarrow> string) \<Rightarrow> server \<Rightarrow> string \<Rightarrow> csv_file prog" where
  "build_datasources_csv cfg render srv save_as =
     bindP (get_api_token cfg srv (USERNAME cfg) (PASSWORD cfg) JNull) (\<lambda>token.
     bindP (print (''Getting all sites on Tableau Server ['' @ fmt (TABLEAU_SERVER_URL cfg) @ '']...'')) (\<lambda>_.
     bindP (get_sites cfg srv token) (\<lambda>sites.
     bindP (logout cfg srv token) (\<lambda>_.
     bindP (walk_sites cfg render srv [] sites) (\<lambda>ds.
     bindP (print ''Writing CSV...'') (\<lambda>_.
     bindP (liftE (write_csv render ds)) (\<lambda>f.
     bindP (print (''Wrote '' @ str_nat (length ds) @ '' datasources to '' @ save_as)) (\<lambda>_.
     returnP f))))))))"

section \<open>The update dispatcher (lines 256 to 284)\<close>

definition success_message :: "ds_entry \<Rightarrow> conn_update \<Rightarrow> error + string" where
  "success_message datasource_data connection =
     bindE (redact (password connection)) (\<lambda>red.
     Inr (''Updated data source '' @ fmt (datasource_name datasource_data)
          @ ''.\<newline>Username: '' @ fmt (username connection)
          @ '' | Password: '' @ red))"

definition error_message :: "(json \<Rightarrow> string) \<Rightarrow> ds_entry \<Rightarrow> site_entry \<Rightarrow> json \<Rightarrow> string" where
  "error_message render datasource_data site_data' j =
     ''ERROR: Error while updating '' @ fmt (datasource_name datasource_data)
       @ '' on site '' @ fmt (site_name site_data') @ '':\<newline>'' @ fmt_json render j"

definition update_request ::
  "config \<Rightarrow> site_entry \<Rightarrow> json \<Rightarrow> cell \<Rightarrow> conn_update \<Rightarrow> request" where
  "update_request cfg site_data' update_token datasource_id' connection =
     \<lparr>req_method = PUT,
      req_url = api_url cfg @ ''/sites/'' @ fmt (site_id site_data') @ ''/datasources/''
                  @ fmt datasource_id' @ ''/connections/'' @ fmt (connection_id connection),
      req_headers = get_request_headers update_token,
      req_json = Some (JObj [(''connection'', JObj
        [(''userName'', json_of_cell (username connection)),
         (''password'', json_of_cell (password connection)),
         (''embedPassword'', JBool True)])])\<rparr>"

text \<open>
  The body of the innermost loop (lines 264 to 284): the request, the confirmation
  message, then the test of the answer, then the line printed.
\<close>

definition update_connection ::
  "config \<Rightarrow> (json \<Rightarrow> string) \<Rightarrow> server \<Rightarrow> site_entry \<Rightarrow> json \<Rightarrow> cell \<Rightarrow> ds_entry
   \<Rightarrow> conn_update \<Rightarrow> unit prog" where
  "update_connection cfg render srv site_data' update_token datasource_id' datasource_data connection =
     bindP (send srv (update_request cfg site_data' update_token datasource_id' connection)) (\<lambda>r.
     bindP (liftE (success_message datasource_data connection)) (\<lambda>message.
     bindP (liftE (resp_json r)) (\<lambda>j.
     bindP (liftE (py_in ''connection'' j)) (\<lambda>has.
     print (if \<not> has then error_message render datasource_data site_data' j else message)))))"

fun update_connections ::
  "config \<Rightarrow> (json \<Rightarrow> string) \<Rightarrow> server \<Rightarrow> site_entry \<Rightarrow> json \<Rightarrow> cell \<Rightarrow> ds_entry
   \<Rightarrow> conn_update list \<Rightarrow> unit prog" where
  "update_connections cfg render srv sd tok dsid dd [] = returnP ()"
| "update_connections cfg render srv sd tok dsid dd (c # cs) =
     bindP (update_connection cfg render srv sd tok dsid dd c) (\<lambda>_.
     update_connections cfg render srv sd tok dsid dd cs)"

fun update_datasources ::
  "config \<Rightarrow> (json \<Rightarrow> string) \<Rightarrow> server \<Rightarrow> site_entry \<Rightarrow> json \<Rightarrow> (cell \<times> ds_entry) list
   \<Rightarrow> unit prog" where
  "update_datasources cfg render srv sd tok [] = returnP ()"
| "update_datasources cfg render srv sd tok (d # ds) =
     bindP (update_connections cfg render srv sd tok (fst d) (snd d) (connections (snd d))) (\<lambda>_.
     update_datasources cfg render srv sd tok ds)"

text \<open>
  The body of the loop over the sites (lines 257 to 284): the banner, the sign-in to
  the site, the updates. Nothing follows the updates.
\<close>

definition update_site ::
  "config \<Rightarrow> (json \<Rightarrow> string) \<Rightarrow> server \<Rightarrow> cell \<times> site_entry \<Rightarrow> unit prog" where
  "update_site cfg render srv site =
     bindP (print (''\<newline>Updating connections for site '' @ fmt (site_name (snd site))
                   @ ''\<newline>-------------------------------------------------'')) (\<lambda>_.
     bindP (get_api_token cfg srv (USERNAME cfg) (PASSWORD cfg) (json_of_cell (fst site))) (\<lambda>update_token.
     update_datasources cfg render srv (snd site) update_token (datasources (snd site))))"

fun update_sites ::
  "config \<Rightarrow> (json \<Rightarrow> string) \<Rightarrow> server \<Rightarrow> update_plan \<Rightarrow> unit prog" where
  "update_sites cfg render srv [] = returnP ()"
| "update_sites cfg render srv (site # rest) =
     bindP (update_site cfg render srv site) (\<lambda>_. update_sites cfg render srv rest)"

text \<open>
  \<^verbatim>\<open>update_datasources_from_csv\<close>: \<open>file\<close> is the content at \<^verbatim>\<open>path_to_csv\<close>,
  \<open>None\<close> when \<^verbatim>\<open>open\<close> fails. The whole file is read into \<^verbatim>\<open>updates\<close> before
  the loop over the sites starts.
\<close>

definition update_datasources_from_csv ::
  "config \<Rightarrow> (json \<Rightarrow> string) \<Rightarrow> server \<Rightarrow> string \<Rightarrow> csv_file option \<Rightarrow> unit prog" where
  "update_datasources_from_csv cfg render srv path_to_csv file =
     (case file of
        None \<Rightarrow> liftE (Inl FileNotFoundError)
      | Some f \<Rightarrow>
          bindP (print (''Collecting data from CSV ['' @ path_to_csv @ '']...'')) (\<lambda>_.
          bindP (liftE (import_csv f)) (\<lambda>updates.
          update_sites cfg render srv updates)))"

section \<open>Notions used to state the properties\<close>

text \<open>
  The columns the import reader reads, in the order of their first use, and the rows
  in which each of them is a string: the header names the column and the record
  reaches it.
\<close>

definition used_columns :: "string list" where
  "used_columns =
     [''updated_username'', ''updated_password'', ''site_content_url'', ''site_id'',
      ''site_name'', ''datasource_id'', ''datasource_name'', ''connection_id'']"

definition is_str :: "cell option \<Rightarrow> bool" where
  "is_str v = (case v of Some (Some _) \<Rightarrow> True | _ \<Rightarrow> False)"

definition has_columns :: "row \<Rightarrow> bool" where
  "has_columns r = list_all (\<lambda>k. is_str (r k)) used_columns"

definition lacks_credentials :: "row \<Rightarrow> bool" where
  "lacks_credentials r \<longleftrightarrow>
     r ''updated_username'' = Some (Some []) \<or> r ''updated_password'' = Some (Some [])"

text \<open>
  A ConnectionRecord has the thirteen keys of lines 173 to 187. The edit of the
  exported file that the round trip speaks of: the two last fields of the i-th data
  record are replaced by the i-th pair of credentials.
\<close>

definition is_connection_record :: "connection_record \<Rightarrow> bool" where
  "is_connection_record d \<longleftrightarrow> map fst d = fieldnames"



text \<open>
  An edited export of one data source with two connections, whose rows disagree on
  the site's id and name and on the data source's name, and the plan read from it.
\<close>

definition row_a :: "string list" where
  "row_a = [''1'', ''A'', ''s'', ''d'', ''n1'', ''u/d'', ''c1'', ''pg'', ''h'', ''5432'', ''old'',
            ''u1'', ''p1'']"

definition row_b :: "string list" where
  "row_b = [''2'', ''B'', ''s'', ''d'', ''n2'', ''u/d'', ''c2'', ''pg'', ''h'', ''5432'', ''old'',
            ''u2'', ''p2'']"

definition two_rows :: csv_file where
  "two_rows = [fieldnames, row_a, row_b]"

definition two_rows_plan :: update_plan where
  "two_rows_plan =
     [(Some ''s'', \<lparr>site_id = Some ''1'', site_name = Some ''A'', datasources =
        [(Some ''d'', \<lparr>datasource_name = Some ''n1'', connections =
           [\<lparr>connection_id = Some ''c1'', username = Some ''u1'', password = Some ''p1''\<rparr>,
            \<lparr>connection_id = Some ''c2'', username = Some ''u2'', password = Some ''p2''\<rparr>]\<rparr>)]\<rparr>)]"

text \<open>
  A configuration, a rendering of containers, an empty starting state and a server
  used in the examples: the server answers every sign-in with a token, answers an
  update issued after exactly one earlier request with an error body that has no \<^verbatim>\<open>connection\<close> key and
  every other update with a \<^verbatim>\<open>connection\<close> object, and lists no data source.
  The files: one whose header lacks \<^verbatim>\<open>datasource_name\<close> and whose second row has no
  user name, and one with the full header whose second row has no password. A
  ConnectionRecord as the walker builds it.
\<close>

definition cfg0 :: config where
  "cfg0 = \<lparr>API_VERSION = Some ''3.4'', TABLEAU_SERVER_URL = Some ''http://ts'',
           USERNAME = Some ''admin'', PASSWORD = Some ''pw''\<rparr>"

definition render0 :: "json \<Rightarrow> string" where
  "render0 j = ''{...}''"

definition st0 :: io where
  "st0 = \<lparr>trace = [], out = []\<rparr>"

definition flaky_server :: server where
  "flaky_server h req =
     (case req_method req of
        POST \<Rightarrow> Reply 200 (Some (JObj [(''credentials'', JObj [(''token'', JStr ''tok'')])]))
      | PUT \<Rightarrow>
          if length h = 1 then Reply 400 (Some (JObj [(''error'', JStr ''bad'')]))
          else Reply 200 (Some (JObj [(''connection'', JObj [])]))
      | GET \<Rightarrow> Reply 200 (Some (JObj [(''datasources'', JObj [])])))"

definition no_name_file :: csv_file where
  "no_name_file =
     [[''site_id'', ''site_name'', ''site_content_url'', ''datasource_id'',
       ''connection_id'', ''updated_username'', ''updated_password''],
      [''1'', ''A'', ''s'', ''d'', ''c1'', ''u1'', ''p1''],
      [''1'', ''A'', ''s'', ''d'', ''c2'', '''', ''p2'']]"

definition row_c :: "string list" where
  "row_c = [''1'', ''A'', ''s'', ''d'', ''n1'', ''u/d'', ''c2'', ''pg'', ''h'', ''5432'', ''old'',
            ''u2'', '''']"

definition empty_password_file :: csv_file where
  "empty_password_file = [fieldnames, row_a, row_c]"


text \<open>
  Two more servers: one that rejects every request with status 401 and an error body,
  and one that lists two sites, the first without data sources (its answer omits the
  \<^verbatim>\<open>datasource\<close> key), the second with two data sources, of which the first has no
  connections (its answer omits the \<^verbatim>\<open>connection\<close> key). The sites, a data source
  and a sign-in body of these answers.
\<close>

definition reject_server :: server where
  "reject_server h req =
     Reply 401 (Some (JObj [(''error'', JObj
       [(''summary'', JStr ''Signin Error''), (''code'', JStr ''401001'')])]))"

definition listing_server :: server where
  "listing_server h req =
     (case req_method req of
        POST \<Rightarrow> Reply 200 (Some (JObj [(''credentials'', JObj [(''token'', JStr ''tok'')])]))
      | PUT \<Rightarrow> Reply 200 (Some (JObj [(''connection'', JObj [])]))
      | GET \<Rightarrow>
          if req_url req = ''http://ts/api/3.4/sites''
          then Reply 200 (Some (JObj [(''sites'', JObj [(''site'', JArr
                 [JObj [(''id'', JStr ''1''), (''name'', JStr ''A''), (''contentUrl'', JStr ''a'')],
                  JObj [(''id'', JStr ''2''), (''name'', JStr ''B''), (''contentUrl'', JStr ''b'')]])])]))
          else if req_url req = ''http://ts/api/3.4/sites/1/datasources''
          then Reply 200 (Some (JObj [(''datasources'', JObj [])]))
          else if req_url req = ''http://ts/api/3.4/sites/2/datasources''
          then Reply 200 (Some (JObj [(''datasources'', JObj [(''datasource'', JArr
                 [JObj [(''id'', JStr ''d1''), (''name'', JStr ''n1''), (''contentUrl'', JStr ''u1'')],
                  JObj [(''id'', JStr ''d2''), (''name'', JStr ''n2''), (''contentUrl'', JStr ''u2'')]])])]))
          else if req_url req = ''http://ts/api/3.4/sites/2/datasources/d1/connections''
          then Reply 200 (Some (JObj [(''connections'', JObj [])]))
          else Reply 200 (Some (JObj [(''connections'', JObj [(''connection'', JArr
                 [JObj [(''id'', JStr ''c1''), (''type'', JStr ''pg''), (''serverAddress'', JStr ''h''),
                        (''serverPort'', JStr ''5432''), (''userName'', JStr ''old'')]])])])))"

definition site_a :: site_data where
  "site_a = \<lparr>name = JStr ''A'', contentUrl = JStr ''a''\<rparr>"

definition site_b :: site_data where
  "site_b = \<lparr>name = JStr ''B'', contentUrl = JStr ''b''\<rparr>"

definition source_d1 :: json where
  "source_d1 = JObj [(''id'', JStr ''d1''), (''name'', JStr ''n1''), (''contentUrl'', JStr ''u1'')]"

definition token_body :: json where
  "token_body = JObj [(''credentials'', JObj [(''token'', JStr ''tok'')])]"







section \<open>Properties of the import reader\<close>

lemma bindE_Inr_iff: "bindE m f = Inr y \<longleftrightarrow> (\<exists>x. m = Inr x \<and> f x = Inr y)"
  by (cases m) auto

lemma getitem_Inr_iff: "getitem r k = Inr v \<longleftrightarrow> r k = Some v"
  by (simp add: getitem_def split: option.splits)

lemma field_missing_False_iff:
  "field_missing r k = Inr False \<longleftrightarrow> (\<exists>s. r k = Some (Some s) \<and> s \<noteq> [])"
  by (auto simp: field_missing_def getitem_def py_len_def is_none_def split: option.splits)



lemma ensure_site_cases:
  assumes "ensure_site u r s = Inr u1"
  shows "(\<exists>e. map_of u s = Some e \<and> u1 = u) \<or>
         (\<exists>sid sn. map_of u s = None \<and> r ''site_id'' = Some sid \<and> r ''site_name'' = Some sn \<and>
            u1 = AList.update s \<lparr>site_id = sid, site_name = sn, datasources = []\<rparr> u)"
  using assms
  by (auto simp: ensure_site_def bindE_Inr_iff getitem_Inr_iff split: option.splits)

lemma ensure_datasource_cases:
  assumes "ensure_datasource dss r d = Inr dss1"
  shows "(\<exists>de. map_of dss d = Some de \<and> dss1 = dss) \<or>
         (\<exists>dn. map_of dss d = None \<and> r ''datasource_name'' = Some dn \<and>
            dss1 = AList.update d \<lparr>datasource_name = dn, connections = []\<rparr> dss)"
  using assms
  by (auto simp: ensure_datasource_def bindE_Inr_iff getitem_Inr_iff split: option.splits)

lemma import_row_InrD:
  assumes "import_row u r = Inr u'"
  shows "\<exists>un pw scu u1 dsid dss1 cid.
           r ''updated_username'' = Some (Some un) \<and> un \<noteq> [] \<and>
           r ''updated_password'' = Some (Some pw) \<and> pw \<noteq> [] \<and>
           r ''site_content_url'' = Some scu \<and>
           ensure_site u r scu = Inr u1 \<and>
           r ''datasource_id'' = Some dsid \<and>
           ensure_datasource (site_datasources u1 scu) r dsid = Inr dss1 \<and>
           r ''connection_id'' = Some cid \<and>
           u' = set_datasources u1 scu
                  (append_connection dss1 dsid
                     \<lparr>connection_id = cid, username = Some un, password = Some pw\<rparr>)"
proof -
  from assms obtain m1 where m1: "field_missing r ''updated_username'' = Inr m1"
    by (auto simp: import_row_def bindE_Inr_iff)
  with assms have m1F: "\<not> m1"
    by (auto simp: import_row_def split: if_splits)
  from assms m1 m1F obtain m2 where m2: "field_missing r ''updated_password'' = Inr m2"
    by (auto simp: import_row_def bindE_Inr_iff)
  with assms m1 m1F have m2F: "\<not> m2"
    by (auto simp: import_row_def split: if_splits)
  from m1 m1F obtain un where un: "r ''updated_username'' = Some (Some un)" "un \<noteq> []"
    by (auto simp: field_missing_False_iff)
  from m2 m2F obtain pw where pw: "r ''updated_password'' = Some (Some pw)" "pw \<noteq> []"
    by (auto simp: field_missing_False_iff)
  from assms m1 m1F m2 m2F un pw show ?thesis
    by (simp add: import_row_def bindE_Inr_iff getitem_Inr_iff) blast
qed

lemma map_of_None_keys: "map_of al k = None \<longleftrightarrow> k \<notin> set (map fst al)"
  by (simp add: map_of_eq_None_iff)

lemma import_row_step:
  assumes "import_row u r = Inr u'"
  shows "\<exists>un pw scu dsid cid e1 de1 dss'.
           r ''updated_username'' = Some (Some un) \<and> un \<noteq> [] \<and>
           r ''updated_password'' = Some (Some pw) \<and> pw \<noteq> [] \<and>
           r ''site_content_url'' = Some scu \<and>
           r ''datasource_id'' = Some dsid \<and>
           r ''connection_id'' = Some cid \<and>
           new_site u r scu e1 \<and>
           new_ds (datasources e1) r dsid de1 \<and>
           u' = AList.update scu (e1\<lparr>datasources := dss'\<rparr>) u \<and>
           dss' = AList.update dsid
                    (de1\<lparr>connections := connections de1 @
                         [\<lparr>connection_id = cid, username = Some un, password = Some pw\<rparr>]\<rparr>)
                    (datasources e1)"
proof -
  from import_row_InrD [OF assms] obtain un pw scu u1 dsid dss1 cid where
    h: "r ''updated_username'' = Some (Some un)" "un \<noteq> []"
       "r ''updated_password'' = Some (Some pw)" "pw \<noteq> []"
       "r ''site_content_url'' = Some scu"
       "ensure_site u r scu = Inr u1"
       "r ''datasource_id'' = Some dsid"
       "ensure_datasource (site_datasources u1 scu) r dsid = Inr dss1"
       "r ''connection_id'' = Some cid"
       "u' = set_datasources u1 scu
                  (append_connection dss1 dsid
                     \<lparr>connection_id = cid, username = Some un, password = Some pw\<rparr>)"
    by blast
  define c where "c = \<lparr>connection_id = cid, username = Some un, password = Some pw\<rparr>"
  have "\<exists>e1. new_site u r scu e1 \<and> map_of u1 scu = Some e1 \<and> u1 = AList.update scu e1 u"
    using ensure_site_cases [OF h(6)]
  proof (elim disjE exE conjE)
    fix e assume "map_of u scu = Some e" "u1 = u"
    then show ?thesis
      by (intro exI [of _ e]) (simp add: new_site_def AList.update_triv)
  next
    fix sid sn
    assume "map_of u scu = None" "r ''site_id'' = Some sid" "r ''site_name'' = Some sn"
      "u1 = AList.update scu \<lparr>site_id = sid, site_name = sn, datasources = []\<rparr> u"
    then show ?thesis
      by (intro exI [of _ "\<lparr>site_id = sid, site_name = sn, datasources = []\<rparr>"])
         (simp add: new_site_def AList.update_conv')
  qed
  then obtain e1 where
    e1: "new_site u r scu e1" "map_of u1 scu = Some e1" "u1 = AList.update scu e1 u"
    by blast
  then have sd: "site_datasources u1 scu = datasources e1"
    by (simp add: site_datasources_def)
  have "\<exists>de1. new_ds (datasources e1) r dsid de1 \<and> map_of dss1 dsid = Some de1 \<and>
           dss1 = AList.update dsid de1 (datasources e1)"
    using ensure_datasource_cases [OF h(8)] unfolding sd
  proof (elim disjE exE conjE)
    fix de assume "map_of (datasources e1) dsid = Some de" "dss1 = datasources e1"
    then show ?thesis
      by (intro exI [of _ de]) (simp add: new_ds_def AList.update_triv)
  next
    fix dn
    assume "map_of (datasources e1) dsid = None" "r ''datasource_name'' = Some dn"
      "dss1 = AList.update dsid \<lparr>datasource_name = dn, connections = []\<rparr> (datasources e1)"
    then show ?thesis
      by (intro exI [of _ "\<lparr>datasource_name = dn, connections = []\<rparr>"])
         (simp add: new_ds_def AList.update_conv')
  qed
  then obtain de1 where
    de1: "new_ds (datasources e1) r dsid de1" "map_of dss1 dsid = Some de1"
         "dss1 = AList.update dsid de1 (datasources e1)"
    by blast
  have app: "append_connection dss1 dsid c =
               AList.update dsid (de1\<lparr>connections := connections de1 @ [c]\<rparr>) (datasources e1)"
    using de1 by (simp add: append_connection_def)
  have "u' = AList.update scu
               (e1\<lparr>datasources := append_connection dss1 dsid c\<rparr>) u"
    using h(10) e1 by (simp add: set_datasources_def c_def)
  with app h e1(1) de1(1) show ?thesis
    unfolding c_def by blast
qed

lemma import_row_plan_ds:
  assumes "import_row u r = Inr u'"
  shows "plan_ds u' s d =
           (if row_of r s d
            then Some (case plan_ds u s d of
                         Some de \<Rightarrow> de\<lparr>connections := connections de @ [row_update r]\<rparr>
                       | None \<Rightarrow> \<lparr>datasource_name = row_get r ''datasource_name'',
                                   connections = [row_update r]\<rparr>)
            else plan_ds u s d)"
proof -
  from import_row_step [OF assms] obtain un pw scu dsid cid e1 de1 dss' where
    h: "r ''updated_username'' = Some (Some un)"
       "r ''updated_password'' = Some (Some pw)"
       "r ''site_content_url'' = Some scu"
       "r ''datasource_id'' = Some dsid"
       "r ''connection_id'' = Some cid"
       "new_site u r scu e1"
       "new_ds (datasources e1) r dsid de1"
       "u' = AList.update scu (e1\<lparr>datasources := dss'\<rparr>) u"
       "dss' = AList.update dsid
                    (de1\<lparr>connections := connections de1 @
                         [\<lparr>connection_id = cid, username = Some un, password = Some pw\<rparr>]\<rparr>)
                    (datasources e1)"
    by blast
  have c: "row_update r = \<lparr>connection_id = cid, username = Some un, password = Some pw\<rparr>"
    using h by (simp add: row_update_def row_get_def)
  have old: "site_datasources u scu = datasources e1"
    using h(6) by (auto simp: new_site_def site_datasources_def)
  show ?thesis
  proof (cases "s = scu")
    case False
    then show ?thesis
      using h(3,8) by (simp add: plan_ds_def site_datasources_def AList.update_conv' row_of_def)
  next
    case True
    have new: "site_datasources u' s = dss'"
      using True h(8) by (simp add: site_datasources_def AList.update_conv')
    show ?thesis
    proof (cases "d = dsid")
      case False
      then show ?thesis
        using True h(3,4,9) new old
        by (simp add: plan_ds_def AList.update_conv' row_of_def)
    next
      case d: True
      have "row_of r s d" using True d h by (simp add: row_of_def)
      moreover have "plan_ds u' s d = Some (de1\<lparr>connections := connections de1 @ [row_update r]\<rparr>)"
        using new d h(9) c by (simp add: plan_ds_def AList.update_conv')
      moreover have "(case plan_ds u s d of
                         Some de \<Rightarrow> de\<lparr>connections := connections de @ [row_update r]\<rparr>
                       | None \<Rightarrow> \<lparr>datasource_name = row_get r ''datasource_name'',
                                   connections = [row_update r]\<rparr>)
                     = de1\<lparr>connections := connections de1 @ [row_update r]\<rparr>"
        using h(7) old True d
        by (auto simp: new_ds_def plan_ds_def row_get_def)
      ultimately show ?thesis by simp
    qed
  qed
qed

lemma import_row_site_meta:
  assumes "import_row u r = Inr u'"
  shows "site_meta u' s =
           (if r ''site_content_url'' = Some s
            then Some (case site_meta u s of
                         Some m \<Rightarrow> m
                       | None \<Rightarrow> (row_get r ''site_id'', row_get r ''site_name''))
            else site_meta u s)"
proof -
  from import_row_step [OF assms] obtain scu e1 dss' where
    h: "r ''site_content_url'' = Some scu"
       "new_site u r scu e1"
       "u' = AList.update scu (e1\<lparr>datasources := dss'\<rparr>) u"
    by blast
  show ?thesis
  proof (cases "s = scu")
    case False
    then show ?thesis using h by (simp add: site_meta_def AList.update_conv')
  next
    case True
    then show ?thesis using h
      by (auto simp: site_meta_def AList.update_conv' new_site_def row_get_def)
  qed
qed

lemma import_row_keys:
  assumes "import_row u r = Inr u'"
  shows "map fst u' =
           (if row_get r ''site_content_url'' \<in> set (map fst u) then map fst u
            else map fst u @ [row_get r ''site_content_url''])"
proof -
  from import_row_step [OF assms] obtain scu e1 dss' where
    h: "r ''site_content_url'' = Some scu"
       "u' = AList.update scu (e1\<lparr>datasources := dss'\<rparr>) u"
    by blast
  then show ?thesis by (simp add: AList.update_keys row_get_def)
qed

lemma import_row_ds_keys:
  assumes "import_row u r = Inr u'"
  shows "map fst (site_datasources u' s) =
           (if r ''site_content_url'' = Some s \<and>
               row_get r ''datasource_id'' \<notin> set (map fst (site_datasources u s))
            then map fst (site_datasources u s) @ [row_get r ''datasource_id'']
            else map fst (site_datasources u s))"
proof -
  from import_row_step [OF assms] obtain scu dsid e1 de' where
    h: "r ''site_content_url'' = Some scu"
       "r ''datasource_id'' = Some dsid"
       "new_site u r scu e1"
       "u' = AList.update scu (e1\<lparr>datasources := AList.update dsid de' (datasources e1)\<rparr>) u"
    by blast
  have old: "site_datasources u scu = datasources e1"
    using h(3) by (auto simp: new_site_def site_datasources_def)
  show ?thesis
  proof (cases "s = scu")
    case False
    then show ?thesis using h by (simp add: site_datasources_def AList.update_conv')
  next
    case True
    then show ?thesis using h old
      by (simp add: site_datasources_def AList.update_conv' AList.update_keys row_get_def)
  qed
qed


lemma import_rows_Cons_Inr:
  "import_rows u (r # rs) = Inr u' \<longleftrightarrow> (\<exists>u1. import_row u r = Inr u1 \<and> import_rows u1 rs = Inr u')"
  by (simp add: bindE_Inr_iff)


lemma import_rows_site_meta:
  "import_rows u rs = Inr u' \<Longrightarrow>
   site_meta u' s =
     (case site_meta u s of
        Some m \<Rightarrow> Some m
      | None \<Rightarrow>
          (case find (\<lambda>r. r ''site_content_url'' = Some s) rs of
             None \<Rightarrow> None
           | Some r0 \<Rightarrow> Some (row_get r0 ''site_id'', row_get r0 ''site_name'')))"
proof (induction rs arbitrary: u)
  case Nil
  then show ?case by (simp split: option.splits)
next
  case (Cons r rs)
  from Cons.prems(1) obtain u1 where u1: "import_row u r = Inr u1" "import_rows u1 rs = Inr u'"
    unfolding import_rows_Cons_Inr by blast
  show ?case
    using Cons.IH [OF u1(2)] import_row_site_meta [OF u1(1), of s]
    by (simp split: option.splits)
qed

lemma import_rows_plan_ds:
  "import_rows u rs = Inr u' \<Longrightarrow>
   plan_ds u' s d =
     (case plan_ds u s d of
        Some de \<Rightarrow>
          Some (de\<lparr>connections := connections de @ map row_update (filter (\<lambda>r. row_of r s d) rs)\<rparr>)
      | None \<Rightarrow>
          (case find (\<lambda>r. row_of r s d) rs of
             None \<Rightarrow> None
           | Some r1 \<Rightarrow>
               Some \<lparr>datasource_name = row_get r1 ''datasource_name'',
                     connections = map row_update (filter (\<lambda>r. row_of r s d) rs)\<rparr>))"
proof (induction rs arbitrary: u)
  case Nil
  then show ?case by (simp split: option.splits)
next
  case (Cons r rs)
  from Cons.prems(1) obtain u1 where u1: "import_row u r = Inr u1" "import_rows u1 rs = Inr u'"
    unfolding import_rows_Cons_Inr by blast
  show ?case
    using Cons.IH [OF u1(2)] import_row_plan_ds [OF u1(1), of s d]
    by (simp split: option.splits)
qed

lemma import_rows_distinct:
  "import_rows u rs = Inr u' \<Longrightarrow> distinct (map fst u) \<Longrightarrow> distinct (map fst u')"
proof (induction rs arbitrary: u)
  case Nil
  then show ?case by simp
next
  case (Cons r rs)
  from Cons.prems(1) obtain u1 where u1: "import_row u r = Inr u1" "import_rows u1 rs = Inr u'"
    unfolding import_rows_Cons_Inr by blast
  have "distinct (map fst u1)"
    using import_row_keys [OF u1(1)] Cons.prems(2) by (simp split: if_splits)
  then show ?case using Cons.IH [OF u1(2)] by simp
qed

lemma import_rows_ds_distinct:
  "import_rows u rs = Inr u' \<Longrightarrow> distinct (map fst (site_datasources u s)) \<Longrightarrow>
   distinct (map fst (site_datasources u' s))"
proof (induction rs arbitrary: u)
  case Nil
  then show ?case by simp
next
  case (Cons r rs)
  from Cons.prems(1) obtain u1 where u1: "import_row u r = Inr u1" "import_rows u1 rs = Inr u'"
    unfolding import_rows_Cons_Inr by blast
  have "distinct (map fst (site_datasources u1 s))"
    using import_row_ds_keys [OF u1(1), of s] Cons.prems(2) by (simp split: if_splits)
  then show ?case using Cons.IH [OF u1(2)] by simp
qed

lemma distinct_keys_filter_one:
  "distinct (map fst al) \<Longrightarrow> map_of al k = Some v \<Longrightarrow> filter (\<lambda>kv. fst kv = k) al = [(k, v)]"
proof (induction al)
  case Nil
  then show ?case by simp
next
  case (Cons a al)
  show ?case
  proof (cases "fst a = k")
    case True
    with Cons.prems have "a = (k, v)" by (cases a) auto
    moreover have "k \<notin> fst ` set al"
      using Cons.prems(1) True by auto
    then have "filter (\<lambda>kv. fst kv = k) al = []"
      unfolding filter_empty_conv by (metis imageI)
    ultimately show ?thesis by simp
  next
    case False
    with Cons show ?thesis by (cases a) auto
  qed
qed

section \<open>The redacted password\<close>

lemma str_index_first: "p \<noteq> [] \<Longrightarrow> str_index (Some p) 0 = Inr [hd p]"
  by (cases p) (simp_all add: str_index_def)

lemma str_index_last: "p \<noteq> [] \<Longrightarrow> str_index (Some p) (- 1) = Inr [last p]"
proof -
  assume p: "p \<noteq> []"
  then have "nat (int (length p) + - 1) = length p - 1" "1 \<le> int (length p)"
    by (cases p, simp_all)+
  with p show ?thesis
    by (simp add: str_index_def last_conv_nth)
qed

text \<open>
  Claim C8. For every non-empty password the redacted text is its first character,
  three dots and its last character, and this is the text the confirmation message
  of the dispatcher ends with: \<^verbatim>\<open>secret\<close> gives \<^verbatim>\<open>s...t\<close> and the one-character
  password \<^verbatim>\<open>x\<close> gives \<^verbatim>\<open>x...x\<close>.
\<close>

theorem redact_first_last:
  assumes "p \<noteq> []"
  shows "redact (Some p) = Inr ([hd p] @ ''...'' @ [last p]) \<and>
         success_message dd \<lparr>connection_id = cid, username = Some un, password = Some p\<rparr> =
           Inr (''Updated data source '' @ fmt (datasource_name dd) @ ''.\<newline>Username: '' @ un
                @ '' | Password: '' @ [hd p] @ ''...'' @ [last p])"
  using assms
  by (simp add: redact_def success_message_def str_index_first str_index_last fmt_def)

theorem redact_first_last_witness:
  "''secret'' \<noteq> [] \<and> redact (Some ''secret'') = Inr ''s...t'' \<and>
   ''x'' \<noteq> [] \<and> redact (Some ''x'') = Inr ''x...x''"
  using redact_first_last [of "''secret''"] redact_first_last [of "''x''"]
  by simp

section \<open>The validation of a row\<close>

text \<open>
  Claim C9, as amended. The right operand \<^verbatim>\<open>row[k] is None\<close> is false whenever it
  is evaluated, so the check answers true exactly for the empty string; a row whose
  value for the field is \<^verbatim>\<open>None\<close> (a record shorter than the header) raises
  \<^verbatim>\<open>TypeError\<close> from \<^verbatim>\<open>len(None)\<close>, not \<^verbatim>\<open>ValueError\<close>; a row without the key
  (the column is absent from the header) raises \<^verbatim>\<open>KeyError\<close>.
\<close>

theorem is_none_branch_unreachable:
  "(getitem r k = Inr v \<longrightarrow> py_len v = Inr n \<longrightarrow> \<not> is_none v) \<and>
   (field_missing r k = Inr True \<longleftrightarrow> r k = Some (Some [])) \<and>
   (r k = Some None \<longrightarrow> field_missing r k = Inl TypeError) \<and>
   (r k = None \<longrightarrow> field_missing r k = Inl (KeyError k)) \<and>
   (r ''updated_username'' = Some None \<longrightarrow> import_row u r = Inl TypeError) \<and>
   (r ''updated_username'' = Some (Some un) \<and> un \<noteq> [] \<and> r ''updated_password'' = Some None
      \<longrightarrow> import_row u r = Inl TypeError) \<and>
   (r ''updated_username'' = None \<longrightarrow> import_row u r = Inl (KeyError ''updated_username''))"
proof (intro conjI impI)
  show "\<not> is_none v" if "py_len v = Inr n"
    using that by (auto simp: py_len_def is_none_def split: option.splits)
  show "field_missing r k = Inr True \<longleftrightarrow> r k = Some (Some [])"
    by (auto simp: field_missing_def getitem_def py_len_def is_none_def split: option.splits)
  show none: "field_missing r k = Inl TypeError" if "r k = Some None" for k
    using that by (simp add: field_missing_def getitem_def py_len_def)
  show absent: "field_missing r k = Inl (KeyError k)" if "r k = None" for k
    using that by (simp add: field_missing_def getitem_def)
  show "import_row u r = Inl TypeError" if "r ''updated_username'' = Some None"
    using none [OF that] by (simp add: import_row_def)
  show "import_row u r = Inl TypeError"
    if h: "r ''updated_username'' = Some (Some un) \<and> un \<noteq> [] \<and> r ''updated_password'' = Some None"
  proof -
    have "field_missing r ''updated_username'' = Inr False"
      using h by (simp add: field_missing_False_iff)
    moreover have "field_missing r ''updated_password'' = Inl TypeError"
      using h none by simp
    ultimately show ?thesis by (simp add: import_row_def)
  qed
  show "import_row u r = Inl (KeyError ''updated_username'')" if "r ''updated_username'' = None"
    using absent [OF that] by (simp add: import_row_def)
qed

theorem is_none_branch_unreachable_witness:
  "dict_row [''site_content_url'', ''updated_username'', ''updated_password''] [''s'']
     ''updated_username'' = Some None \<and>
   import_row []
     (dict_row [''site_content_url'', ''updated_username'', ''updated_password''] [''s''])
     = Inl TypeError \<and>
   dict_row [''site_content_url'', ''updated_username'', ''updated_password''] [''s'', ''u'']
     ''updated_password'' = Some None \<and>
   import_row []
     (dict_row [''site_content_url'', ''updated_username'', ''updated_password''] [''s'', ''u''])
     = Inl TypeError \<and>
   dict_row [''site_content_url'', ''updated_password''] [''s'', ''p''] ''updated_username'' = None \<and>
   import_row [] (dict_row [''site_content_url'', ''updated_password''] [''s'', ''p''])
     = Inl (KeyError ''updated_username'') \<and>
   getitem (dict_row [''updated_username''] [''u'']) ''updated_username'' = Inr (Some ''u'') \<and>
   py_len (Some ''u'') = Inr 1 \<and> \<not> is_none (Some ''u'')"
  using
    is_none_branch_unreachable [of
      "dict_row [''site_content_url'', ''updated_username'', ''updated_password''] [''s'']"
      "''updated_username''" None 0 "[]" "[]"]
    is_none_branch_unreachable [of
      "dict_row [''site_content_url'', ''updated_username'', ''updated_password''] [''s'', ''u'']"
      "''updated_password''" None 0 "[]" "''u''"]
    is_none_branch_unreachable [of
      "dict_row [''site_content_url'', ''updated_password''] [''s'', ''p'']"
      "''updated_username''" None 0 "[]" "[]"]
    is_none_branch_unreachable [of
      "dict_row [''updated_username''] [''u'']"
      "''updated_username''" "Some ''u''" 1 "[]" "[]"]
  by (simp add: dict_row_def getitem_def py_len_def)

text \<open>
  Claim C9 as stated names the column absent from the header as a case of
  \<^verbatim>\<open>TypeError\<close>: on such a file the reader raises \<^verbatim>\<open>KeyError\<close>.
\<close>

theorem absent_column_counterexample:
  "import_csv [[''site_content_url'', ''updated_password''], [''s'', ''p'']]
     = Inl (KeyError ''updated_username'')"
  by (simp add: import_csv_def DictReader_def dict_row_def import_row_def field_missing_def
        getitem_def)

section \<open>Grouping\<close>

lemma find_Some_filter: "find P xs = Some x \<Longrightarrow> P x \<and> x \<in> set xs"
  by (induction xs) (auto split: if_splits)

lemma find_None_mem: "x \<in> set xs \<Longrightarrow> P x \<Longrightarrow> find P xs \<noteq> None"
  by (auto simp: find_None_iff)

lemma import_csv_plan_ds:
  assumes "import_csv f = Inr plan" and "find (\<lambda>r. row_of r s d) (DictReader f) = Some r1"
  shows "\<exists>e. map_of plan s = Some e \<and>
             map_of (datasources e) d =
               Some \<lparr>datasource_name = row_get r1 ''datasource_name'',
                     connections = map row_update (filter (\<lambda>r. row_of r s d) (DictReader f))\<rparr>"
proof -
  have "plan_ds [] s d = None"
    by (simp add: plan_ds_def site_datasources_def)
  with import_rows_plan_ds [of "[]" "DictReader f" plan s d] assms
  have pd: "plan_ds plan s d =
          Some \<lparr>datasource_name = row_get r1 ''datasource_name'',
                connections = map row_update (filter (\<lambda>r. row_of r s d) (DictReader f))\<rparr>"
    by (simp add: import_csv_def)
  then obtain e where "map_of plan s = Some e"
    by (cases "map_of plan s") (simp_all add: plan_ds_def site_datasources_def)
  with pd show ?thesis
    by (simp add: plan_ds_def site_datasources_def)
qed

lemma import_csv_distinct:
  assumes "import_csv f = Inr plan"
  shows "distinct (map fst plan)" and "map_of plan s = Some e \<Longrightarrow> distinct (map fst (datasources e))"
proof -
  show "distinct (map fst plan)"
    using import_rows_distinct [of "[]" "DictReader f" plan] assms by (simp add: import_csv_def)
  show "distinct (map fst (datasources e))" if "map_of plan s = Some e"
    using import_rows_ds_distinct [of "[]" "DictReader f" plan s] assms that
    by (simp add: import_csv_def site_datasources_def)
qed

text \<open>
  Claim C4. When the file has two rows of the same site and data source with different
  connection ids, the plan has exactly one entry for the site, that entry has exactly
  one entry for the data source, and its connection list, which is the list of the
  updates of all rows of that pair in file order, holds both updates.
\<close>

theorem rows_of_one_datasource_merge:
  assumes "import_csv f = Inr plan"
    and "r1 \<in> set (DictReader f)" and "r2 \<in> set (DictReader f)"
    and "row_of r1 s d" and "row_of r2 s d"
    and "row_get r1 ''connection_id'' \<noteq> row_get r2 ''connection_id''"
  shows "\<exists>e de. filter (\<lambda>kv. fst kv = s) plan = [(s, e)] \<and>
           filter (\<lambda>kv. fst kv = d) (datasources e) = [(d, de)] \<and>
           connections de = map row_update (filter (\<lambda>r. row_of r s d) (DictReader f)) \<and>
           row_update r1 \<in> set (connections de) \<and>
           row_update r2 \<in> set (connections de) \<and>
           row_update r1 \<noteq> row_update r2"
proof -
  from assms(2,4) obtain r0 where r0: "find (\<lambda>r. row_of r s d) (DictReader f) = Some r0"
    using find_None_mem [of r1 "DictReader f" "\<lambda>r. row_of r s d"] by auto
  from import_csv_plan_ds [OF assms(1) r0] obtain e where
    e: "map_of plan s = Some e"
       "map_of (datasources e) d =
               Some \<lparr>datasource_name = row_get r0 ''datasource_name'',
                     connections = map row_update (filter (\<lambda>r. row_of r s d) (DictReader f))\<rparr>"
    by blast
  let ?de = "\<lparr>datasource_name = row_get r0 ''datasource_name'',
              connections = map row_update (filter (\<lambda>r. row_of r s d) (DictReader f))\<rparr>"
  have "filter (\<lambda>kv. fst kv = s) plan = [(s, e)]"
    using distinct_keys_filter_one import_csv_distinct(1) [OF assms(1)] e(1) by fastforce
  moreover have "filter (\<lambda>kv. fst kv = d) (datasources e) = [(d, ?de)]"
    using distinct_keys_filter_one import_csv_distinct(2) [OF assms(1) e(1)] e(2) by fastforce
  moreover have "row_update r1 \<in> set (connections ?de)" "row_update r2 \<in> set (connections ?de)"
    using assms(2-5) by auto
  moreover have "row_update r1 \<noteq> row_update r2"
    using assms(6) by (auto simp: row_update_def)
  ultimately show ?thesis by (intro exI [of _ e] exI [of _ ?de]) simp
qed

text \<open>
  Claim C10. The site entry keeps the \<^verbatim>\<open>site_id\<close> and \<^verbatim>\<open>site_name\<close> of the first
  row of that site, the data-source entry keeps the \<^verbatim>\<open>datasource_name\<close> of the first
  row of that site and data source, and the later rows only extend the connection
  list, in file order.
\<close>

theorem first_row_metadata_kept:
  assumes "import_csv f = Inr plan"
    and "find (\<lambda>r. r ''site_content_url'' = Some s) (DictReader f) = Some r0"
    and "find (\<lambda>r. row_of r s d) (DictReader f) = Some r1"
  shows "\<exists>e de. map_of plan s = Some e \<and>
           site_id e = row_get r0 ''site_id'' \<and>
           site_name e = row_get r0 ''site_name'' \<and>
           map_of (datasources e) d = Some de \<and>
           datasource_name de = row_get r1 ''datasource_name'' \<and>
           connections de = map row_update (filter (\<lambda>r. row_of r s d) (DictReader f))"
proof -
  from import_csv_plan_ds [OF assms(1,3)] obtain e where
    e: "map_of plan s = Some e"
       "map_of (datasources e) d =
               Some \<lparr>datasource_name = row_get r1 ''datasource_name'',
                     connections = map row_update (filter (\<lambda>r. row_of r s d) (DictReader f))\<rparr>"
    by blast
  have "site_meta [] s = None" by (simp add: site_meta_def)
  with import_rows_site_meta [of "[]" "DictReader f" plan s] assms(1,2)
  have "site_meta plan s = Some (row_get r0 ''site_id'', row_get r0 ''site_name'')"
    by (simp add: import_csv_def)
  with e(1) have "site_id e = row_get r0 ''site_id''" "site_name e = row_get r0 ''site_name''"
    by (simp_all add: site_meta_def)
  with e show ?thesis by simp
qed

lemma two_rows_reader: "DictReader two_rows = [dict_row fieldnames row_a, dict_row fieldnames row_b]"
  by (simp add: DictReader_def two_rows_def row_a_def row_b_def)

lemma row_a_cells:
  "dict_row fieldnames row_a ''site_id'' = Some (Some ''1'')"
  "dict_row fieldnames row_a ''site_name'' = Some (Some ''A'')"
  "dict_row fieldnames row_a ''site_content_url'' = Some (Some ''s'')"
  "dict_row fieldnames row_a ''datasource_id'' = Some (Some ''d'')"
  "dict_row fieldnames row_a ''datasource_name'' = Some (Some ''n1'')"
  "dict_row fieldnames row_a ''connection_id'' = Some (Some ''c1'')"
  "dict_row fieldnames row_a ''updated_username'' = Some (Some ''u1'')"
  "dict_row fieldnames row_a ''updated_password'' = Some (Some ''p1'')"
  by (simp_all add: dict_row_def fieldnames_def row_a_def)

lemma row_b_cells:
  "dict_row fieldnames row_b ''site_id'' = Some (Some ''2'')"
  "dict_row fieldnames row_b ''site_name'' = Some (Some ''B'')"
  "dict_row fieldnames row_b ''site_content_url'' = Some (Some ''s'')"
  "dict_row fieldnames row_b ''datasource_id'' = Some (Some ''d'')"
  "dict_row fieldnames row_b ''datasource_name'' = Some (Some ''n2'')"
  "dict_row fieldnames row_b ''connection_id'' = Some (Some ''c2'')"
  "dict_row fieldnames row_b ''updated_username'' = Some (Some ''u2'')"
  "dict_row fieldnames row_b ''updated_password'' = Some (Some ''p2'')"
  by (simp_all add: dict_row_def fieldnames_def row_b_def)

lemma two_rows_import: "import_csv two_rows = Inr two_rows_plan"
  by (simp add: import_csv_def two_rows_reader import_row_def field_missing_def
        getitem_def py_len_def is_none_def ensure_site_def ensure_datasource_def
        site_datasources_def append_connection_def set_datasources_def
        row_a_cells row_b_cells two_rows_plan_def)

theorem rows_of_one_datasource_merge_witness:
  "import_csv two_rows = Inr two_rows_plan \<and>
   dict_row fieldnames row_a \<in> set (DictReader two_rows) \<and>
   dict_row fieldnames row_b \<in> set (DictReader two_rows) \<and>
   row_of (dict_row fieldnames row_a) (Some ''s'') (Some ''d'') \<and>
   row_of (dict_row fieldnames row_b) (Some ''s'') (Some ''d'') \<and>
   row_get (dict_row fieldnames row_a) ''connection_id''
     \<noteq> row_get (dict_row fieldnames row_b) ''connection_id'' \<and>
   (\<exists>e de. filter (\<lambda>kv. fst kv = Some ''s'') two_rows_plan = [(Some ''s'', e)] \<and>
      filter (\<lambda>kv. fst kv = Some ''d'') (datasources e) = [(Some ''d'', de)] \<and>
      connections de =
        map row_update (filter (\<lambda>r. row_of r (Some ''s'') (Some ''d'')) (DictReader two_rows)) \<and>
      row_update (dict_row fieldnames row_a) \<in> set (connections de) \<and>
      row_update (dict_row fieldnames row_b) \<in> set (connections de) \<and>
      row_update (dict_row fieldnames row_a) \<noteq> row_update (dict_row fieldnames row_b))"
proof -
  have h: "import_csv two_rows = Inr two_rows_plan"
    "dict_row fieldnames row_a \<in> set (DictReader two_rows)"
    "dict_row fieldnames row_b \<in> set (DictReader two_rows)"
    "row_of (dict_row fieldnames row_a) (Some ''s'') (Some ''d'')"
    "row_of (dict_row fieldnames row_b) (Some ''s'') (Some ''d'')"
    "row_get (dict_row fieldnames row_a) ''connection_id''
       \<noteq> row_get (dict_row fieldnames row_b) ''connection_id''"
    by (simp_all add: two_rows_import two_rows_reader row_of_def row_get_def row_a_cells row_b_cells)
  from rows_of_one_datasource_merge [OF h] h show ?thesis by blast
qed

theorem first_row_metadata_kept_witness:
  "import_csv two_rows = Inr two_rows_plan \<and>
   find (\<lambda>r. r ''site_content_url'' = Some (Some ''s'')) (DictReader two_rows)
     = Some (dict_row fieldnames row_a) \<and>
   find (\<lambda>r. row_of r (Some ''s'') (Some ''d'')) (DictReader two_rows)
     = Some (dict_row fieldnames row_a) \<and>
   row_get (dict_row fieldnames row_b) ''site_name'' = Some ''B'' \<and>
   (\<exists>e de. map_of two_rows_plan (Some ''s'') = Some e \<and>
      site_id e = Some ''1'' \<and> site_name e = Some ''A'' \<and>
      map_of (datasources e) (Some ''d'') = Some de \<and>
      datasource_name de = Some ''n1'' \<and> length (connections de) = 2)"
proof -
  have h: "import_csv two_rows = Inr two_rows_plan"
    "find (\<lambda>r. r ''site_content_url'' = Some (Some ''s'')) (DictReader two_rows)
       = Some (dict_row fieldnames row_a)"
    "find (\<lambda>r. row_of r (Some ''s'') (Some ''d'')) (DictReader two_rows)
       = Some (dict_row fieldnames row_a)"
    by (simp_all add: two_rows_import two_rows_reader row_of_def row_a_cells row_b_cells)
  have "row_get (dict_row fieldnames row_b) ''site_name'' = Some ''B''"
    by (simp add: row_get_def row_b_cells)
  with first_row_metadata_kept [OF h] h show ?thesis
    by (auto simp: row_get_def row_a_cells two_rows_reader row_of_def row_b_cells)
qed

section \<open>Validation before any request, and the round trip\<close>

lemma has_columns_iff:
  "has_columns r \<longleftrightarrow>
     is_str (r ''updated_username'') \<and> is_str (r ''updated_password'') \<and>
     is_str (r ''site_content_url'') \<and> is_str (r ''site_id'') \<and> is_str (r ''site_name'') \<and>
     is_str (r ''datasource_id'') \<and> is_str (r ''datasource_name'') \<and>
     is_str (r ''connection_id'')"
  by (simp add: has_columns_def used_columns_def)

lemma is_str_iff: "is_str v \<longleftrightarrow> (\<exists>s. v = Some (Some s))"
  by (auto simp: is_str_def split: option.splits)

lemma import_row_empty_username:
  "r ''updated_username'' = Some (Some []) \<Longrightarrow> import_row u r = Inl (ValueError msg_username)"
  by (simp add: import_row_def field_missing_def getitem_def py_len_def)

lemma import_row_empty_password:
  "r ''updated_username'' = Some (Some un) \<Longrightarrow> un \<noteq> [] \<Longrightarrow>
   r ''updated_password'' = Some (Some []) \<Longrightarrow> import_row u r = Inl (ValueError msg_password)"
  by (simp add: import_row_def field_missing_def getitem_def py_len_def is_none_def)

lemma ensure_site_total:
  "is_str (r ''site_id'') \<Longrightarrow> is_str (r ''site_name'') \<Longrightarrow> \<exists>u1. ensure_site u r s = Inr u1"
  by (auto simp: ensure_site_def getitem_def is_str_iff split: option.splits)

lemma ensure_datasource_total:
  "is_str (r ''datasource_name'') \<Longrightarrow> \<exists>d1. ensure_datasource dss r d = Inr d1"
  by (auto simp: ensure_datasource_def getitem_def is_str_iff split: option.splits)

lemma import_row_valid:
  assumes "has_columns r" and "\<not> lacks_credentials r"
  shows "\<exists>u'. import_row u r = Inr u'"
proof -
  from assms obtain un pw scu dsid cid where
    h: "r ''updated_username'' = Some (Some un)" "un \<noteq> []"
       "r ''updated_password'' = Some (Some pw)" "pw \<noteq> []"
       "r ''site_content_url'' = Some (Some scu)" "r ''datasource_id'' = Some (Some dsid)"
       "r ''connection_id'' = Some (Some cid)"
    by (auto simp: has_columns_iff is_str_iff lacks_credentials_def)
  have m: "field_missing r ''updated_username'' = Inr False"
          "field_missing r ''updated_password'' = Inr False"
    using h by (simp_all add: field_missing_False_iff)
  from assms(1) obtain u1 where u1: "ensure_site u r (Some scu) = Inr u1"
    using ensure_site_total [of r u "Some scu"] by (auto simp: has_columns_iff)
  from assms(1) obtain d1 where
    d1: "ensure_datasource (site_datasources u1 (Some scu)) r (Some dsid) = Inr d1"
    using ensure_datasource_total [of r "site_datasources u1 (Some scu)" "Some dsid"]
    by (auto simp: has_columns_iff)
  show ?thesis
    using m h u1 d1 by (simp add: import_row_def getitem_def)
qed


lemma import_row_lacking:
  assumes "has_columns r" and "lacks_credentials r"
  shows "import_row u r =
           Inl (ValueError (if r ''updated_username'' = Some (Some []) then msg_username
                            else msg_password))"
proof (cases "r ''updated_username'' = Some (Some [])")
  case True
  then show ?thesis by (simp add: import_row_empty_username)
next
  case False
  with assms obtain un where "r ''updated_username'' = Some (Some un)" "un \<noteq> []"
    "r ''updated_password'' = Some (Some [])"
    by (auto simp: has_columns_iff is_str_iff lacks_credentials_def)
  with False show ?thesis by (simp add: import_row_empty_password)
qed

lemma import_rows_lacking:
  assumes "\<forall>r \<in> set rs. has_columns r" and "find lacks_credentials rs = Some r0"
  shows "import_rows u rs =
           Inl (ValueError (if r0 ''updated_username'' = Some (Some []) then msg_username
                            else msg_password))"
  using assms
proof (induction rs arbitrary: u)
  case Nil
  then show ?case by simp
next
  case (Cons r rs)
  show ?case
  proof (cases "lacks_credentials r")
    case True
    with Cons.prems have "r0 = r" by simp
    with True Cons.prems(1) show ?thesis
      using import_row_lacking [of r u] by simp
  next
    case False
    with Cons.prems obtain u1 where "import_row u r = Inr u1"
      using import_row_valid [of r u] by auto
    with False Cons show ?thesis by simp
  qed
qed

lemma bindP_Inl: "m st = (Inl e, st') \<Longrightarrow> bindP m f st = (Inl e, st')"
  by (simp add: bindP_def)

lemma bindP_Inr: "m st = (Inr x, st') \<Longrightarrow> bindP m f st = f x st'"
  by (simp add: bindP_def)

text \<open>
  Claim C1, as amended. When the import pass raises, whatever the error, the run ends
  with that error after the one line printed and issues no request at all. When every
  row of the file has the eight columns the reader uses as strings and some row has an
  empty \<^verbatim>\<open>updated_username\<close> or \<^verbatim>\<open>updated_password\<close>, the error is the
  \<^verbatim>\<open>ValueError\<close> of the first such row, with the message of its first empty field.
\<close>

theorem validation_precedes_updates:
  "(import_csv f = Inl e \<longrightarrow>
      update_datasources_from_csv cfg render srv path (Some f) st =
        (Inl e, st\<lparr>out := out st @ [''Collecting data from CSV ['' @ path @ '']...'']\<rparr>)) \<and>
   ((\<forall>r \<in> set (DictReader f). has_columns r) \<and> r \<in> set (DictReader f) \<and> lacks_credentials r \<longrightarrow>
      (\<exists>r0 st'. find lacks_credentials (DictReader f) = Some r0 \<and>
         update_datasources_from_csv cfg render srv path (Some f) st =
           (Inl (ValueError (if r0 ''updated_username'' = Some (Some []) then msg_username
                             else msg_password)), st') \<and>
         trace st' = trace st))"
proof (intro conjI impI)
  show fail: "update_datasources_from_csv cfg render srv path (Some f) st =
        (Inl e, st\<lparr>out := out st @ [''Collecting data from CSV ['' @ path @ '']...'']\<rparr>)"
    if "import_csv f = Inl e" for e
    using that by (simp add: update_datasources_from_csv_def bindP_def print_def liftE_def)
  assume h: "(\<forall>r \<in> set (DictReader f). has_columns r) \<and> r \<in> set (DictReader f) \<and> lacks_credentials r"
  then obtain r0 where r0: "find lacks_credentials (DictReader f) = Some r0"
    by (cases "find lacks_credentials (DictReader f)") (auto simp: find_None_iff)
  with h have "import_csv f =
      Inl (ValueError (if r0 ''updated_username'' = Some (Some []) then msg_username
                       else msg_password))"
    using import_rows_lacking [of "DictReader f" r0 "[]"] by (simp add: import_csv_def)
  from fail [OF this] r0
  show "\<exists>r0 st'. find lacks_credentials (DictReader f) = Some r0 \<and>
         update_datasources_from_csv cfg render srv path (Some f) st =
           (Inl (ValueError (if r0 ''updated_username'' = Some (Some []) then msg_username
                             else msg_password)), st') \<and>
         trace st' = trace st"
    by simp
qed

lemma no_name_import: "import_csv no_name_file = Inl (KeyError ''datasource_name'')"
  by (simp add: import_csv_def DictReader_def no_name_file_def dict_row_def import_row_def
        field_missing_def getitem_def py_len_def is_none_def ensure_site_def ensure_datasource_def
        site_datasources_def)

text \<open>
  Claim C1 as stated speaks of every input file: on a file whose header lacks
  \<^verbatim>\<open>datasource_name\<close> the first row raises \<^verbatim>\<open>KeyError\<close> before the row with the
  empty user name is reached.
\<close>

theorem missing_column_counterexample:
  "lacks_credentials (DictReader no_name_file ! 1) \<and>
   update_datasources_from_csv cfg0 render0 flaky_server ''datasources.csv'' (Some no_name_file) st0
     = (Inl (KeyError ''datasource_name''),
        \<lparr>trace = [], out = [''Collecting data from CSV [datasources.csv]...'']\<rparr>)"
  by (simp add: update_datasources_from_csv_def bindP_def print_def liftE_def no_name_import st0_def)
     (simp add: DictReader_def no_name_file_def dict_row_def lacks_credentials_def)

lemma map_of_rev_distinct: "distinct (map fst xs) \<Longrightarrow> map_of (rev xs) = map_of xs"
  by (rule map_of_inject_set [THEN iffD2]) (simp_all add: rev_map [symmetric])

lemma dict_row_nth:
  assumes "distinct h" and "length cells = length h" and "i < length h"
  shows "dict_row h cells (h ! i) = Some (Some (cells ! i))"
proof -
  have "distinct (map fst (zip h (map Some cells)))"
    using assms by simp
  then have "dict_row h cells = map_of (zip h (map Some cells))"
    using assms by (simp add: dict_row_def map_of_rev_distinct)
  moreover have "map_of (zip h (map Some cells)) (h ! i) = Some (map Some cells ! i)"
    using assms by (intro map_of_zip_nth) simp_all
  ultimately show ?thesis using assms by simp
qed

lemma distinct_fieldnames: "distinct fieldnames"
  by (simp add: fieldnames_def)

lemma length_fieldnames: "length fieldnames = 13"
  by (simp add: fieldnames_def)

lemma fieldnames_nth:
  "fieldnames ! 0 = ''site_id''" "fieldnames ! 1 = ''site_name''" "fieldnames ! Suc 0 = ''site_name''"
  "fieldnames ! 2 = ''site_content_url''" "fieldnames ! 3 = ''datasource_id''"
  "fieldnames ! 4 = ''datasource_name''" "fieldnames ! 6 = ''connection_id''"
  "fieldnames ! 11 = ''updated_username''" "fieldnames ! 12 = ''updated_password''"
  by (simp_all add: fieldnames_def)

lemma dict_row_fieldnames:
  assumes "length cells = 13"
  shows "dict_row fieldnames cells ''site_id'' = Some (Some (cells ! 0))"
    "dict_row fieldnames cells ''site_name'' = Some (Some (cells ! 1))"
    "dict_row fieldnames cells ''site_content_url'' = Some (Some (cells ! 2))"
    "dict_row fieldnames cells ''datasource_id'' = Some (Some (cells ! 3))"
    "dict_row fieldnames cells ''datasource_name'' = Some (Some (cells ! 4))"
    "dict_row fieldnames cells ''connection_id'' = Some (Some (cells ! 6))"
    "dict_row fieldnames cells ''updated_username'' = Some (Some (cells ! 11))"
    "dict_row fieldnames cells ''updated_password'' = Some (Some (cells ! 12))"
  using dict_row_nth [OF distinct_fieldnames, of cells 0]
    dict_row_nth [OF distinct_fieldnames, of cells 1]
    dict_row_nth [OF distinct_fieldnames, of cells 2]
    dict_row_nth [OF distinct_fieldnames, of cells 3]
    dict_row_nth [OF distinct_fieldnames, of cells 4]
    dict_row_nth [OF distinct_fieldnames, of cells 6]
    dict_row_nth [OF distinct_fieldnames, of cells 11]
    dict_row_nth [OF distinct_fieldnames, of cells 12]
    assms
  by (simp_all add: length_fieldnames fieldnames_nth)



lemma connection_record_keys:
  "connection_record sid sd source c = Inr d \<Longrightarrow> is_connection_record d"
  by (auto simp: connection_record_def bindE_Inr_iff is_connection_record_def fieldnames_def)


lemma length_rows: "length row_a = 13" "length row_b = 13" "length row_c = 13"
  by (simp_all add: row_a_def row_b_def row_c_def)

lemma empty_password_reader:
  "DictReader empty_password_file = [dict_row fieldnames row_a, dict_row fieldnames row_c]"
  by (simp add: DictReader_def empty_password_file_def row_a_def row_c_def)

lemma row_c_lacks: "lacks_credentials (dict_row fieldnames row_c)"
  by (simp add: lacks_credentials_def dict_row_fieldnames [OF length_rows(3)]) (simp add: row_c_def)

lemma rows_have_columns:
  "has_columns (dict_row fieldnames row_a)" "has_columns (dict_row fieldnames row_c)"
  by (simp_all add: has_columns_iff is_str_def dict_row_fieldnames [OF length_rows(1)]
        dict_row_fieldnames [OF length_rows(3)])

theorem validation_precedes_updates_witness:
  "import_csv empty_password_file = Inl (ValueError msg_password) \<and>
   list_all has_columns (DictReader empty_password_file) \<and>
   dict_row fieldnames row_c \<in> set (DictReader empty_password_file) \<and>
   lacks_credentials (dict_row fieldnames row_c) \<and>
   update_datasources_from_csv cfg0 render0 flaky_server ''datasources.csv''
       (Some empty_password_file) st0
     = (Inl (ValueError msg_password),
        \<lparr>trace = [], out = [''Collecting data from CSV [datasources.csv]...'']\<rparr>)"
proof -
  have h: "(\<forall>r \<in> set (DictReader empty_password_file). has_columns r) \<and>
           dict_row fieldnames row_c \<in> set (DictReader empty_password_file) \<and>
           lacks_credentials (dict_row fieldnames row_c)"
    by (simp add: empty_password_reader rows_have_columns row_c_lacks)
  have a: "\<not> lacks_credentials (dict_row fieldnames row_a)"
    by (simp add: lacks_credentials_def dict_row_fieldnames [OF length_rows(1)]) (simp add: row_a_def)
  have u: "dict_row fieldnames row_c ''updated_username'' \<noteq> Some (Some [])"
    by (simp add: dict_row_fieldnames [OF length_rows(3)]) (simp add: row_c_def)
  have f: "find lacks_credentials (DictReader empty_password_file) = Some (dict_row fieldnames row_c)"
    by (simp add: empty_password_reader a row_c_lacks)
  have i: "import_csv empty_password_file = Inl (ValueError msg_password)"
    using import_rows_lacking [of "DictReader empty_password_file" "dict_row fieldnames row_c" "[]"]
      h f u
    by (simp add: import_csv_def)
  from validation_precedes_updates [of empty_password_file "ValueError msg_password" cfg0 render0
      flaky_server "''datasources.csv''" st0 "dict_row fieldnames row_c"] h i
  show ?thesis
    by (simp add: st0_def list_all_iff)
qed


section \<open>The session client, the walker and the missing sign-out\<close>

lemma send_reply:
  "srv (trace st) req = Reply c b \<Longrightarrow>
   send srv req st = (Inr (c, b), st\<lparr>trace := trace st @ [req]\<rparr>)"
  by (simp add: send_def)

lemma get_api_token_reply:
  "srv (trace st) (signin_request cfg user pass site) = Reply c b \<Longrightarrow>
   get_api_token cfg srv user pass site st =
     (token_of (c, b), st\<lparr>trace := trace st @ [signin_request cfg user pass site]\<rparr>)"
  by (cases "token_of (c, b)") (simp_all add: get_api_token_def bindP_def send_reply liftE_def)

text \<open>
  Claim C7, as amended. The sign-in issues one request and its outcome is decided by
  the body of the answer alone, whatever the status code: a body that is not JSON
  raises the decoding error, an object without \<^verbatim>\<open>credentials\<close> or whose credentials
  have no \<^verbatim>\<open>token\<close> raises \<^verbatim>\<open>KeyError\<close> for that key, and a body with
  \<^verbatim>\<open>credentials.token\<close> returns the token.
\<close>

theorem sign_in_outcome:
  assumes "srv (trace st) (signin_request cfg user pass site) = Reply code body"
  shows "get_api_token cfg srv user pass site st =
           (token_of (code, body), st\<lparr>trace := trace st @ [signin_request cfg user pass site]\<rparr>) \<and>
         (body = None \<longrightarrow> token_of (code, body) = Inl JSONDecodeError) \<and>
         (body = Some (JObj kvs) \<and> map_of kvs ''credentials'' = None \<longrightarrow>
            token_of (code, body) = Inl (KeyError ''credentials'')) \<and>
         (body = Some (JObj kvs) \<and> map_of kvs ''credentials'' = Some (JObj cs) \<and>
          map_of cs ''token'' = None \<longrightarrow>
            token_of (code, body) = Inl (KeyError ''token'')) \<and>
         (body = Some (JObj kvs) \<and> map_of kvs ''credentials'' = Some (JObj cs) \<and>
          map_of cs ''token'' = Some t \<longrightarrow>
            token_of (code, body) = Inr t)"
  using get_api_token_reply [of srv st cfg user pass site code body] assms
  by (simp add: token_of_def resp_json_def)

text \<open>
  Claim C7 as stated: a rejected sign-in (status 401, an error body) ends in
  \<^verbatim>\<open>KeyError\<close>, the error of the dictionary subscript, not in a sign-in error of
  its own.
\<close>

theorem rejected_sign_in_counterexample:
  "get_api_token cfg0 reject_server (Some ''admin'') (Some ''wrong'') JNull st0 =
     (Inl (KeyError ''credentials''),
      \<lparr>trace = [signin_request cfg0 (Some ''admin'') (Some ''wrong'') JNull], out = []\<rparr>)"
  by (simp add: get_api_token_def bindP_def send_def reject_server_def liftE_def token_of_def
        resp_json_def st0_def)

theorem sign_in_outcome_witness:
  "reject_server (trace st0) (signin_request cfg0 (Some ''admin'') (Some ''wrong'') JNull) =
     Reply 401 (Some (JObj [(''error'', JObj
       [(''summary'', JStr ''Signin Error''), (''code'', JStr ''401001'')])])) \<and>
   get_api_token cfg0 reject_server (Some ''admin'') (Some ''wrong'') JNull st0 =
     (Inl (KeyError ''credentials''),
      st0\<lparr>trace := trace st0 @ [signin_request cfg0 (Some ''admin'') (Some ''wrong'') JNull]\<rparr>) \<and>
   flaky_server (trace st0) (signin_request cfg0 (Some ''admin'') (Some ''pw'') JNull) =
     Reply 200 (Some (JObj [(''credentials'', JObj [(''token'', JStr ''tok'')])])) \<and>
   get_api_token cfg0 flaky_server (Some ''admin'') (Some ''pw'') JNull st0 =
     (Inr (JStr ''tok''),
      st0\<lparr>trace := trace st0 @ [signin_request cfg0 (Some ''admin'') (Some ''pw'') JNull]\<rparr>)"
proof -
  have r: "reject_server (trace st0) (signin_request cfg0 (Some ''admin'') (Some ''wrong'') JNull) =
     Reply 401 (Some (JObj [(''error'', JObj
       [(''summary'', JStr ''Signin Error''), (''code'', JStr ''401001'')])]))"
    by (simp add: reject_server_def)
  have f: "flaky_server (trace st0) (signin_request cfg0 (Some ''admin'') (Some ''pw'') JNull) =
     Reply 200 (Some (JObj [(''credentials'', JObj [(''token'', JStr ''tok'')])]))"
    by (simp add: flaky_server_def signin_request_def)
  from sign_in_outcome [of reject_server st0 cfg0 "Some ''admin''" "Some ''wrong''" JNull 401
      "Some (JObj [(''error'', JObj
         [(''summary'', JStr ''Signin Error''), (''code'', JStr ''401001'')])])"
      "[(''error'', JObj
         [(''summary'', JStr ''Signin Error''), (''code'', JStr ''401001'')])]" "[]" JNull]
    sign_in_outcome [of flaky_server st0 cfg0 "Some ''admin''" "Some ''pw''" JNull 200
      "Some (JObj [(''credentials'', JObj [(''token'', JStr ''tok'')])])"
      "[(''credentials'', JObj [(''token'', JStr ''tok'')])]"
      "[(''token'', JStr ''tok'')]" "JStr ''tok''"]
    r f
  show ?thesis by simp
qed

lemmas prog_defs = bindP_def returnP_def liftE_def print_def send_def resp_json_def

text \<open>
  Claim C2. On a file with one site and two connections the dispatcher issues the
  sign-in and the two updates and then finishes: the token is never signed out. The
  walker, on a server with two sites, signs out after the site listing and after each
  site.
\<close>

theorem dispatcher_never_signs_out:
  "update_datasources_from_csv cfg0 render0 flaky_server ''datasources.csv'' (Some two_rows) st0 =
     (Inr (),
      \<lparr>trace =
         [signin_request cfg0 (Some ''admin'') (Some ''pw'') (JStr ''s''),
          update_request cfg0 (snd (hd two_rows_plan)) (JStr ''tok'') (Some ''d'')
            \<lparr>connection_id = Some ''c1'', username = Some ''u1'', password = Some ''p1''\<rparr>,
          update_request cfg0 (snd (hd two_rows_plan)) (JStr ''tok'') (Some ''d'')
            \<lparr>connection_id = Some ''c2'', username = Some ''u2'', password = Some ''p2''\<rparr>],
       out =
         [''Collecting data from CSV [datasources.csv]...'',
          ''\<newline>Updating connections for site A\<newline>-------------------------------------------------'',
          ''ERROR: Error while updating n1 on site A:\<newline>{...}'',
          ''Updated data source n1.\<newline>Username: u2 | Password: p...2'']\<rparr>) \<and>
   map req_url (trace (snd
     (update_datasources_from_csv cfg0 render0 flaky_server ''datasources.csv'' (Some two_rows) st0))) =
     [''http://ts/api/3.4/auth/signin'',
      ''http://ts/api/3.4/sites/1/datasources/d/connections/c1'',
      ''http://ts/api/3.4/sites/1/datasources/d/connections/c2''] \<and>
   map req_url (trace (snd
     (build_datasources_csv cfg0 render0 listing_server ''datasources.csv'' st0))) =
     [''http://ts/api/3.4/auth/signin'',
      ''http://ts/api/3.4/sites'',
      ''http://ts/api/3.4/auth/signout'',
      ''http://ts/api/3.4/auth/signin'',
      ''http://ts/api/3.4/sites/1/datasources'',
      ''http://ts/api/3.4/auth/signout'',
      ''http://ts/api/3.4/auth/signin'',
      ''http://ts/api/3.4/sites/2/datasources'',
      ''http://ts/api/3.4/sites/2/datasources/d1/connections'',
      ''http://ts/api/3.4/sites/2/datasources/d2/connections'',
      ''http://ts/api/3.4/auth/signout'']"
proof -
  have run: "update_datasources_from_csv cfg0 render0 flaky_server ''datasources.csv'' (Some two_rows) st0 =
     (Inr (),
      \<lparr>trace =
         [signin_request cfg0 (Some ''admin'') (Some ''pw'') (JStr ''s''),
          update_request cfg0 (snd (hd two_rows_plan)) (JStr ''tok'') (Some ''d'')
            \<lparr>connection_id = Some ''c1'', username = Some ''u1'', password = Some ''p1''\<rparr>,
          update_request cfg0 (snd (hd two_rows_plan)) (JStr ''tok'') (Some ''d'')
            \<lparr>connection_id = Some ''c2'', username = Some ''u2'', password = Some ''p2''\<rparr>],
       out =
         [''Collecting data from CSV [datasources.csv]...'',
          ''\<newline>Updating connections for site A\<newline>-------------------------------------------------'',
          ''ERROR: Error while updating n1 on site A:\<newline>{...}'',
          ''Updated data source n1.\<newline>Username: u2 | Password: p...2'']\<rparr>)"
    by (simp add: update_datasources_from_csv_def two_rows_import two_rows_plan_def prog_defs
          update_site_def get_api_token_def token_of_def st0_def cfg0_def flaky_server_def
          signin_request_def update_connection_def update_request_def success_message_def
          error_message_def redact_def str_index_def fmt_def fmt_json_def render0_def
          json_of_cell_def api_url_def get_request_headers_def)
  have urls: "map req_url (trace (snd
     (update_datasources_from_csv cfg0 render0 flaky_server ''datasources.csv'' (Some two_rows) st0))) =
     [''http://ts/api/3.4/auth/signin'',
      ''http://ts/api/3.4/sites/1/datasources/d/connections/c1'',
      ''http://ts/api/3.4/sites/1/datasources/d/connections/c2'']"
    unfolding run
    by (simp add: signin_request_def update_request_def api_url_def cfg0_def fmt_def
          two_rows_plan_def)
  have walk: "map req_url (trace (snd
     (build_datasources_csv cfg0 render0 listing_server ''datasources.csv'' st0))) =
     [''http://ts/api/3.4/auth/signin'',
      ''http://ts/api/3.4/sites'',
      ''http://ts/api/3.4/auth/signout'',
      ''http://ts/api/3.4/auth/signin'',
      ''http://ts/api/3.4/sites/1/datasources'',
      ''http://ts/api/3.4/auth/signout'',
      ''http://ts/api/3.4/auth/signin'',
      ''http://ts/api/3.4/sites/2/datasources'',
      ''http://ts/api/3.4/sites/2/datasources/d1/connections'',
      ''http://ts/api/3.4/sites/2/datasources/d2/connections'',
      ''http://ts/api/3.4/auth/signout'']"
    by (simp add: build_datasources_csv_def prog_defs get_api_token_def token_of_def st0_def
          cfg0_def listing_server_def signin_request_def signout_request_def logout_def
          get_sites_def get_request_def hashable_def walk_site_def walk_source_def
          connection_record_def datasources_url_def connections_url_def write_csv_def
          dict_to_list_def fieldnames_def csv_cell_def
          fmt_def fmt_json_def render0_def json_of_cell_def api_url_def get_request_headers_def)
  from run urls walk show ?thesis by simp
qed

lemma logout_reply:
  "srv (trace st) (signout_request cfg tok) = Reply c b \<Longrightarrow>
   logout cfg srv tok st = (Inr (), st\<lparr>trace := trace st @ [signout_request cfg tok]\<rparr>)"
  by (simp add: logout_def bindP_def send_reply returnP_def)

lemma walk_source_no_connection:
  assumes "subscript source ''id'' = Inr ds_id"
    and "srv (trace st) (get_request (connections_url cfg render sid ds_id) tok)
           = Reply c (Some (JObj body))"
    and "map_of body ''connections'' = Some (JObj kvs)"
    and "''connection'' \<notin> set (map fst kvs)"
  shows "walk_source cfg render srv sid sd tok acc source st =
           (Inr acc, st\<lparr>trace := trace st @ [get_request (connections_url cfg render sid ds_id) tok]\<rparr>)"
  using assms
  by (simp add: walk_source_def bindP_def liftE_def send_reply resp_json_def returnP_def)

lemma walk_site_no_datasource:
  assumes "srv (trace st) (signin_request cfg (USERNAME cfg) (PASSWORD cfg) (contentUrl sd))
             = Reply c1 b1"
    and "token_of (c1, b1) = Inr tok"
    and "srv (trace st @ [signin_request cfg (USERNAME cfg) (PASSWORD cfg) (contentUrl sd)])
           (get_request (datasources_url cfg render sid) tok) = Reply c2 (Some (JObj body))"
    and "map_of body ''datasources'' = Some (JObj kvs)"
    and "''datasource'' \<notin> set (map fst kvs)"
    and "srv (trace st @ [signin_request cfg (USERNAME cfg) (PASSWORD cfg) (contentUrl sd),
                          get_request (datasources_url cfg render sid) tok])
           (signout_request cfg tok) = Reply c3 b3"
  shows "walk_site cfg render srv acc (sid, sd) st =
           (Inr acc,
            st\<lparr>trace := trace st @
                   [signin_request cfg (USERNAME cfg) (PASSWORD cfg) (contentUrl sd),
                    get_request (datasources_url cfg render sid) tok,
                    signout_request cfg tok],
                out := out st @
                   [''Getting datasources for '' @ fmt_json render (name sd) @ '' site...'']\<rparr>)"
proof -
  let ?signin = "signin_request cfg (USERNAME cfg) (PASSWORD cfg) (contentUrl sd)"
  let ?get = "get_request (datasources_url cfg render sid) tok"
  have tok: "get_api_token cfg srv (USERNAME cfg) (PASSWORD cfg) (contentUrl sd) s =
               (Inr tok, s\<lparr>trace := trace s @ [?signin]\<rparr>)"
    if "trace s = trace st" for s
    using get_api_token_reply [of srv s cfg "USERNAME cfg" "PASSWORD cfg" "contentUrl sd" c1 b1]
      assms(1,2) that by simp
  have get: "send srv ?get s = (Inr (c2, Some (JObj body)), s\<lparr>trace := trace s @ [?get]\<rparr>)"
    if "trace s = trace st @ [?signin]" for s
    using send_reply [of srv s ?get c2 "Some (JObj body)"] assms(3) that by simp
  have out: "logout cfg srv tok s = (Inr (), s\<lparr>trace := trace s @ [signout_request cfg tok]\<rparr>)"
    if "trace s = trace st @ [?signin, ?get]" for s
    using logout_reply [of srv s cfg tok c3 b3] assms(6) that by simp
  show ?thesis
    using assms(4,5)
    by (simp add: walk_site_def bindP_def print_def tok get out liftE_def resp_json_def returnP_def)
qed

text \<open>
  Claim C6. When the answer to the data-source listing of a site is an object whose
  \<^verbatim>\<open>datasources\<close> object has no \<^verbatim>\<open>datasource\<close> key (and the server answers the
  sign-in and the sign-out), the walk of the site returns normally with the records
  unchanged, after the sign-in, the listing and the sign-out, and the loop goes on with
  the next site. Likewise a data source whose connection listing has no
  \<^verbatim>\<open>connection\<close> key adds no record and the loop goes on with the next data source.
\<close>

theorem missing_collection_is_empty:
  "(srv (trace st) (signin_request cfg (USERNAME cfg) (PASSWORD cfg) (contentUrl sd))
      = Reply c1 b1 \<and>
    token_of (c1, b1) = Inr tok \<and>
    srv (trace st @ [signin_request cfg (USERNAME cfg) (PASSWORD cfg) (contentUrl sd)])
      (get_request (datasources_url cfg render sid) tok) = Reply c2 (Some (JObj body)) \<and>
    map_of body ''datasources'' = Some (JObj kvs) \<and>
    ''datasource'' \<notin> set (map fst kvs) \<and>
    srv (trace st @ [signin_request cfg (USERNAME cfg) (PASSWORD cfg) (contentUrl sd),
                     get_request (datasources_url cfg render sid) tok])
      (signout_request cfg tok) = Reply c3 b3
    \<longrightarrow>
      (\<exists>st'. walk_site cfg render srv acc (sid, sd) st = (Inr acc, st') \<and>
         trace st' = trace st @
           [signin_request cfg (USERNAME cfg) (PASSWORD cfg) (contentUrl sd),
            get_request (datasources_url cfg render sid) tok,
            signout_request cfg tok] \<and>
         walk_sites cfg render srv acc ((sid, sd) # sites) st =
           walk_sites cfg render srv acc sites st')) \<and>
   (subscript source ''id'' = Inr ds_id \<and>
    srv (trace st) (get_request (connections_url cfg render sid ds_id) tok)
      = Reply c (Some (JObj body')) \<and>
    map_of body' ''connections'' = Some (JObj kvs') \<and>
    ''connection'' \<notin> set (map fst kvs')
    \<longrightarrow>
      (\<exists>st'. walk_source cfg render srv sid sd tok acc source st = (Inr acc, st') \<and>
         trace st' = trace st @ [get_request (connections_url cfg render sid ds_id) tok] \<and>
         walk_sources cfg render srv sid sd tok acc (source # sources) st =
           walk_sources cfg render srv sid sd tok acc sources st'))"
proof (intro conjI impI)
  assume "srv (trace st) (signin_request cfg (USERNAME cfg) (PASSWORD cfg) (contentUrl sd))
      = Reply c1 b1 \<and>
    token_of (c1, b1) = Inr tok \<and>
    srv (trace st @ [signin_request cfg (USERNAME cfg) (PASSWORD cfg) (contentUrl sd)])
      (get_request (datasources_url cfg render sid) tok) = Reply c2 (Some (JObj body)) \<and>
    map_of body ''datasources'' = Some (JObj kvs) \<and>
    ''datasource'' \<notin> set (map fst kvs) \<and>
    srv (trace st @ [signin_request cfg (USERNAME cfg) (PASSWORD cfg) (contentUrl sd),
                     get_request (datasources_url cfg render sid) tok])
      (signout_request cfg tok) = Reply c3 b3"
  then have "walk_site cfg render srv acc (sid, sd) st =
           (Inr acc,
            st\<lparr>trace := trace st @
                   [signin_request cfg (USERNAME cfg) (PASSWORD cfg) (contentUrl sd),
                    get_request (datasources_url cfg render sid) tok,
                    signout_request cfg tok],
                out := out st @
                   [''Getting datasources for '' @ fmt_json render (name sd) @ '' site...'']\<rparr>)"
    using walk_site_no_datasource [of srv st cfg sd c1 b1 tok render sid c2 body kvs c3 b3 acc]
    by blast
  then show "\<exists>st'. walk_site cfg render srv acc (sid, sd) st = (Inr acc, st') \<and>
         trace st' = trace st @
           [signin_request cfg (USERNAME cfg) (PASSWORD cfg) (contentUrl sd),
            get_request (datasources_url cfg render sid) tok,
            signout_request cfg tok] \<and>
         walk_sites cfg render srv acc ((sid, sd) # sites) st =
           walk_sites cfg render srv acc sites st'"
    by (simp add: bindP_def)
next
  assume "subscript source ''id'' = Inr ds_id \<and>
    srv (trace st) (get_request (connections_url cfg render sid ds_id) tok)
      = Reply c (Some (JObj body')) \<and>
    map_of body' ''connections'' = Some (JObj kvs') \<and>
    ''connection'' \<notin> set (map fst kvs')"
  then have "walk_source cfg render srv sid sd tok acc source st =
           (Inr acc, st\<lparr>trace := trace st @ [get_request (connections_url cfg render sid ds_id) tok]\<rparr>)"
    using walk_source_no_connection [of source ds_id srv st cfg render sid tok c body' kvs' sd acc]
    by blast
  then show "\<exists>st'. walk_source cfg render srv sid sd tok acc source st = (Inr acc, st') \<and>
         trace st' = trace st @ [get_request (connections_url cfg render sid ds_id) tok] \<and>
         walk_sources cfg render srv sid sd tok acc (source # sources) st =
           walk_sources cfg render srv sid sd tok acc sources st'"
    by (simp add: bindP_def)
qed

theorem missing_collection_is_empty_witness:
  "listing_server (trace st0)
      (signin_request cfg0 (USERNAME cfg0) (PASSWORD cfg0) (contentUrl site_a))
      = Reply 200 (Some token_body) \<and>
   token_of (200, Some token_body) = Inr (JStr ''tok'') \<and>
   listing_server
      (trace st0 @ [signin_request cfg0 (USERNAME cfg0) (PASSWORD cfg0) (contentUrl site_a)])
      (get_request (datasources_url cfg0 render0 (JStr ''1'')) (JStr ''tok''))
      = Reply 200 (Some (JObj [(''datasources'', JObj [])])) \<and>
   map_of [(''datasources'', JObj [])] ''datasources'' = Some (JObj []) \<and>
   ''datasource'' \<notin> set (map fst ([] :: (string \<times> json) list)) \<and>
   listing_server
      (trace st0 @ [signin_request cfg0 (USERNAME cfg0) (PASSWORD cfg0) (contentUrl site_a),
                    get_request (datasources_url cfg0 render0 (JStr ''1'')) (JStr ''tok'')])
      (signout_request cfg0 (JStr ''tok'')) = Reply 200 (Some token_body) \<and>
   (\<exists>st'. walk_site cfg0 render0 listing_server [] (JStr ''1'', site_a) st0 = (Inr [], st') \<and>
      trace st' = trace st0 @
        [signin_request cfg0 (USERNAME cfg0) (PASSWORD cfg0) (contentUrl site_a),
         get_request (datasources_url cfg0 render0 (JStr ''1'')) (JStr ''tok''),
         signout_request cfg0 (JStr ''tok'')] \<and>
      walk_sites cfg0 render0 listing_server [] [(JStr ''1'', site_a)] st0 =
        walk_sites cfg0 render0 listing_server [] [] st') \<and>
   subscript source_d1 ''id'' = Inr (JStr ''d1'') \<and>
   listing_server (trace st0)
      (get_request (connections_url cfg0 render0 (JStr ''2'') (JStr ''d1'')) (JStr ''tok''))
      = Reply 200 (Some (JObj [(''connections'', JObj [])])) \<and>
   map_of [(''connections'', JObj [])] ''connections'' = Some (JObj []) \<and>
   (\<exists>st'. walk_source cfg0 render0 listing_server (JStr ''2'') site_b (JStr ''tok'') [] source_d1 st0
            = (Inr [], st') \<and>
      trace st' = trace st0 @
        [get_request (connections_url cfg0 render0 (JStr ''2'') (JStr ''d1'')) (JStr ''tok'')] \<and>
      walk_sources cfg0 render0 listing_server (JStr ''2'') site_b (JStr ''tok'') [] [source_d1] st0 =
        walk_sources cfg0 render0 listing_server (JStr ''2'') site_b (JStr ''tok'') [] [] st')"
proof -
  have h1: "listing_server (trace st0)
      (signin_request cfg0 (USERNAME cfg0) (PASSWORD cfg0) (contentUrl site_a))
      = Reply 200 (Some token_body)"
    by (simp add: listing_server_def signin_request_def token_body_def)
  have h2: "token_of (200, Some token_body) = Inr (JStr ''tok'')"
    by (simp add: token_of_def resp_json_def token_body_def)
  have h3: "listing_server
      (trace st0 @ [signin_request cfg0 (USERNAME cfg0) (PASSWORD cfg0) (contentUrl site_a)])
      (get_request (datasources_url cfg0 render0 (JStr ''1'')) (JStr ''tok''))
      = Reply 200 (Some (JObj [(''datasources'', JObj [])]))"
    by (simp add: listing_server_def get_request_def datasources_url_def api_url_def cfg0_def
          fmt_def fmt_json_def)
  have h4: "listing_server
      (trace st0 @ [signin_request cfg0 (USERNAME cfg0) (PASSWORD cfg0) (contentUrl site_a),
                    get_request (datasources_url cfg0 render0 (JStr ''1'')) (JStr ''tok'')])
      (signout_request cfg0 (JStr ''tok'')) = Reply 200 (Some token_body)"
    by (simp add: listing_server_def signout_request_def token_body_def)
  have h5: "subscript source_d1 ''id'' = Inr (JStr ''d1'')"
    by (simp add: source_d1_def)
  have h6: "listing_server (trace st0)
      (get_request (connections_url cfg0 render0 (JStr ''2'') (JStr ''d1'')) (JStr ''tok''))
      = Reply 200 (Some (JObj [(''connections'', JObj [])]))"
    by (simp add: listing_server_def get_request_def connections_url_def api_url_def cfg0_def
          fmt_def fmt_json_def)
  from missing_collection_is_empty [where srv = listing_server and st = st0 and cfg = cfg0
      and sd = site_a and ?c1.0 = 200 and ?b1.0 = "Some token_body" and tok = "JStr ''tok''"
      and render = render0 and sid = "JStr ''1''" and ?c2.0 = 200
      and body = "[(''datasources'', JObj [])]" and kvs = "[]" and ?c3.0 = 200
      and ?b3.0 = "Some token_body" and acc = "[]" and sites = "[]"]
    h1 h2 h3 h4
  have a: "\<exists>st'. walk_site cfg0 render0 listing_server [] (JStr ''1'', site_a) st0 = (Inr [], st') \<and>
      trace st' = trace st0 @
        [signin_request cfg0 (USERNAME cfg0) (PASSWORD cfg0) (contentUrl site_a),
         get_request (datasources_url cfg0 render0 (JStr ''1'')) (JStr ''tok''),
         signout_request cfg0 (JStr ''tok'')] \<and>
      walk_sites cfg0 render0 listing_server [] [(JStr ''1'', site_a)] st0 =
        walk_sites cfg0 render0 listing_server [] [] st'"
    by simp
  from missing_collection_is_empty [where srv = listing_server and st = st0 and cfg = cfg0
      and sd = site_b and tok = "JStr ''tok''" and render = render0 and sid = "JStr ''2''"
      and source = source_d1 and ds_id = "JStr ''d1''" and c = 200
      and body' = "[(''connections'', JObj [])]" and kvs' = "[]" and acc = "[]"
      and sources = "[]"]
    h5 h6
  have b: "\<exists>st'. walk_source cfg0 render0 listing_server (JStr ''2'') site_b (JStr ''tok'') [] source_d1 st0
            = (Inr [], st') \<and>
      trace st' = trace st0 @
        [get_request (connections_url cfg0 render0 (JStr ''2'') (JStr ''d1'')) (JStr ''tok'')] \<and>
      walk_sources cfg0 render0 listing_server (JStr ''2'') site_b (JStr ''tok'') [] [source_d1] st0 =
        walk_sources cfg0 render0 listing_server (JStr ''2'') site_b (JStr ''tok'') [] [] st'"
    by simp
  from h1 h2 h3 h4 h5 h6 a b show ?thesis by simp
qed

section \<open>The dispatcher goes on after a failed update\<close>









lemma update_request_put [simp]:
  "req_method (update_request cfg sd tok dsid c) = PUT"
  "(update_request cfg sd tok dsid c)\<lparr>req_method := PUT\<rparr> = update_request cfg sd tok dsid c"
  by (simp_all add: update_request_def)




lemma signin_request_post [simp]: "req_method (signin_request cfg u p s) = POST"
  by (simp add: signin_request_def)






end
